theory Spec2Isabelle
  imports Complex_Main "HOL-Library.Word" "HOL-Library.Log_Nat"
begin

section \<open>Configuration constants (config.h)\<close>

definition WIFI_SSID :: string where "WIFI_SSID = ''your_wifi_ssid''"
definition WIFI_PASSWORD :: string where "WIFI_PASSWORD = ''your_wifi_password''"
definition MQTT_USERNAME :: string where "MQTT_USERNAME = ''your_mqtt_username''"
definition MQTT_PASSWORD :: string where "MQTT_PASSWORD = ''your_mqtt_password''"
definition MQTT_CLIENT_ID :: string where "MQTT_CLIENT_ID = ''ESP32_SolarCharge_001''"
definition MQTT_TOPIC_STATUS :: string where "MQTT_TOPIC_STATUS = ''station/001/status''"
definition MQTT_TOPIC_CONTROL :: string where "MQTT_TOPIC_CONTROL = ''station/001/control''"
definition MQTT_TOPIC_SENSOR_DATA :: string where "MQTT_TOPIC_SENSOR_DATA = ''station/001/sensor''"
definition API_BASE_URL :: string where
  "API_BASE_URL = ''http://your-backend-url.com/api/sensor-data''"

definition SOLAR_VOLTAGE_PIN :: int where "SOLAR_VOLTAGE_PIN = 34"
definition SOLAR_CURRENT_PIN :: int where "SOLAR_CURRENT_PIN = 35"
definition BATTERY_VOLTAGE_PIN :: int where "BATTERY_VOLTAGE_PIN = 32"
definition CHARGE_STATUS_PIN :: int where "CHARGE_STATUS_PIN = 33"
definition RELAY_1_PIN :: int where "RELAY_1_PIN = 26"
definition RELAY_2_PIN :: int where "RELAY_2_PIN = 27"

definition MQTT_BROKER :: string where
  "MQTT_BROKER = ''zfd47f32.ala.asia-southeast1.emqxsl.com''"
definition MQTT_PORT :: nat where "MQTT_PORT = 8883"
definition MQTT_KEEPALIVE :: nat where "MQTT_KEEPALIVE = 60"

definition SENSOR_READ_INTERVAL :: "32 word" where "SENSOR_READ_INTERVAL = 5000"

section \<open>Data model\<close>

text \<open>
  The firmware keeps its state in globals and acts on the world through the Arduino,
  WiFi, PubSubClient and HTTPClient libraries. The model threads one record through
  every function: the four globals of main.cpp, the hardware and network state the
  libraries expose, and a chronological log (\<open>trace\<close>) of every externally visible
  effect, so that the order of a GPIO write and a publish can be read off the log.
\<close>

text \<open>Values stored in a JSON document or printed on the serial console. A C++
  \<open>float\<close> is the rational number it denotes; \<open>millis()\<close> is an unsigned 32-bit
  integer on the ESP32.\<close>

datatype jval = JBool bool | JInt int | JFloat rat | JUInt "32 word" | JStr string

type_synonym json_doc = "(string \<times> jval) list"

datatype wl_status_t =
  WL_IDLE_STATUS | WL_NO_SSID_AVAIL | WL_CONNECTED | WL_CONNECT_FAILED | WL_DISCONNECTED

datatype event =
    SerialBegin nat
  | PinMode int bool
  | DigitalWrite int bool
  | SerialOut string
  | SerialVal jval
  | SerialPrintf string "jval list"
  | Delay "32 word"
  | WifiBegin string string
  | MqttSetServer string nat
  | MqttSetCallback
  | MqttSetKeepAlive nat
  | MqttConnect string string string
  | MqttSubscribe string
  | MqttPublish string json_doc
  | HttpBegin string
  | HttpHeader string string
  | HttpPost json_doc
  | HttpEnd

record world =
  relay1State :: bool
  relay2State :: bool
  lastSensorRead :: "32 word"
  lastMqttPublish :: "32 word"
  pin_level :: "int \<Rightarrow> bool"
  adc :: "int \<Rightarrow> int"
  digital_in :: "int \<Rightarrow> int"
  clock :: "32 word"
  wifi_status :: "nat \<Rightarrow> wl_status_t"
  wifi_polls :: nat
  local_ip :: string
  mqtt_connected :: bool
  connect_result :: "nat \<Rightarrow> bool"
  connect_attempts :: nat
  mqtt_rc :: int
  publish_ok :: bool
  http_response :: int
  trace :: "event list"

text \<open>
  Environment fields: \<open>adc\<close> and \<open>digital_in\<close> are what \<open>analogRead\<close> and
  \<open>digitalRead\<close> return for a pin; \<open>wifi_status k\<close> is the answer of the \<open>k\<close>-th call
  of \<open>WiFi.status()\<close> since boot and \<open>connect_result k\<close> the outcome of the \<open>k\<close>-th
  \<open>mqttClient.connect\<close>; \<open>publish_ok\<close> is what \<open>mqttClient.publish\<close> returns and
  \<open>http_response\<close> what \<open>http.POST\<close> returns. \<open>mqtt_connected\<close> is what
  \<open>mqttClient.connected()\<close> reports; it changes through \<open>connect\<close> and through the
  servicing call \<open>mqttClient.loop()\<close> only. \<open>clock\<close> is \<open>millis()\<close>; the model
  advances it in \<open>delay\<close> only.
\<close>

section \<open>Library primitives\<close>

definition emit :: "event \<Rightarrow> world \<Rightarrow> world" where
  "emit e w = w\<lparr>trace := trace w @ [e]\<rparr>"

definition serial :: "string \<Rightarrow> world \<Rightarrow> world" where
  "serial s w = emit (SerialOut s) w"

definition millis :: "world \<Rightarrow> 32 word" where
  "millis w = clock w"

definition delay :: "32 word \<Rightarrow> world \<Rightarrow> world" where
  "delay ms w = emit (Delay ms) (w\<lparr>clock := clock w + ms\<rparr>)"

text \<open>\<open>pinMode(pin, OUTPUT)\<close> is \<open>pinMode pin True\<close>, \<open>pinMode(pin, INPUT)\<close> is
  \<open>pinMode pin False\<close>; \<open>HIGH\<close> is \<open>True\<close> and \<open>LOW\<close> is \<open>False\<close>.\<close>

definition pinMode :: "int \<Rightarrow> bool \<Rightarrow> world \<Rightarrow> world" where
  "pinMode pin out w = emit (PinMode pin out) w"

definition digitalWrite :: "int \<Rightarrow> bool \<Rightarrow> world \<Rightarrow> world" where
  "digitalWrite pin v w = emit (DigitalWrite pin v) (w\<lparr>pin_level := (pin_level w)(pin := v)\<rparr>)"

definition analogRead :: "int \<Rightarrow> world \<Rightarrow> int" where
  "analogRead pin w = adc w pin"

definition digitalRead :: "int \<Rightarrow> world \<Rightarrow> int" where
  "digitalRead pin w = digital_in w pin"

text \<open>\<open>WiFi.status()\<close>: the answer of this poll, and the world after it.\<close>

definition WiFi_status :: "world \<Rightarrow> wl_status_t" where
  "WiFi_status w = wifi_status w (wifi_polls w)"

definition polled :: "world \<Rightarrow> world" where
  "polled w = w\<lparr>wifi_polls := Suc (wifi_polls w)\<rparr>"

text \<open>\<open>mqttClient.connect(id, user, pass)\<close>: one attempt; afterwards
  \<open>mqtt_connected\<close> holds the boolean it returned.\<close>

definition mqtt_connect :: "string \<Rightarrow> string \<Rightarrow> string \<Rightarrow> world \<Rightarrow> world" where
  "mqtt_connect cid user pass w =
     emit (MqttConnect cid user pass)
       (w\<lparr>mqtt_connected := connect_result w (connect_attempts w),
          connect_attempts := Suc (connect_attempts w)\<rparr>)"

definition mqtt_subscribe :: "string \<Rightarrow> world \<Rightarrow> world" where
  "mqtt_subscribe topic w = emit (MqttSubscribe topic) w"

text \<open>\<open>mqttClient.publish(topic, serializeJson(doc))\<close>: the log keeps the document
  that is serialised.\<close>

definition mqtt_publish :: "string \<Rightarrow> json_doc \<Rightarrow> world \<Rightarrow> world" where
  "mqtt_publish topic doc w = emit (MqttPublish topic doc) w"

section \<open>Status publish and the command interpreter\<close>

definition publishStatus :: "world \<Rightarrow> world" where
  "publishStatus w =
     (if \<not> mqtt_connected w then w
      else
        let doc = [(''relay1'', JBool (relay1State w)),
                   (''relay2'', JBool (relay2State w)),
                   (''timestamp'', JUInt (millis w))];
            w1 = mqtt_publish MQTT_TOPIC_STATUS doc w
        in if publish_ok w1 then serial ''Status published to MQTT'' w1
           else serial ''Failed to publish status to MQTT'' w1)"

text \<open>
  The Arduino \<open>String\<close> holds the bytes appended to it, NUL bytes included. Its
  comparison with a C string, \<open>String::equals(const char*)\<close>, is \<open>strcmp\<close> on the
  buffer: both sides are read up to their first NUL byte. \<open>c_str s\<close> is that text.
\<close>

definition c_str :: "string \<Rightarrow> string" where
  "c_str s = takeWhile (\<lambda>c. c \<noteq> CHR 0x00) s"

definition String_equals :: "string \<Rightarrow> string \<Rightarrow> bool" where
  "String_equals s cstr \<longleftrightarrow> c_str s = c_str cstr"

definition handleRelayControl :: "string \<Rightarrow> world \<Rightarrow> world" where
  "handleRelayControl message w =
     publishStatus
       (if String_equals message ''relay1_on'' then
          serial ''Relay 1 ON'' ((digitalWrite RELAY_1_PIN True w)\<lparr>relay1State := True\<rparr>)
        else if String_equals message ''relay1_off'' then
          serial ''Relay 1 OFF'' ((digitalWrite RELAY_1_PIN False w)\<lparr>relay1State := False\<rparr>)
        else if String_equals message ''relay2_on'' then
          serial ''Relay 2 ON'' ((digitalWrite RELAY_2_PIN True w)\<lparr>relay2State := True\<rparr>)
        else if String_equals message ''relay2_off'' then
          serial ''Relay 2 OFF'' ((digitalWrite RELAY_2_PIN False w)\<lparr>relay2State := False\<rparr>)
        else w)"

text \<open>The byte-by-byte copy of the payload into a \<open>String\<close> (an Isabelle \<open>char\<close> is
  one byte). The \<open>topic\<close> argument is a NUL-terminated C string, modelled by its text, so
  \<open>String(topic)\<close> is that text and its comparison with the control topic is equality.\<close>

fun payload_to_String :: "string \<Rightarrow> char list \<Rightarrow> string" where
  "payload_to_String message [] = message"
| "payload_to_String message (b # payload) = payload_to_String (message @ [b]) payload"

definition mqttCallback :: "string \<Rightarrow> char list \<Rightarrow> world \<Rightarrow> world" where
  "mqttCallback topic payload w =
     (let w1 = serial topic (serial ''Message received on topic: '' w);
          message = payload_to_String '''' payload;
          w2 = serial message (serial ''Message: '' w1)
      in if topic = MQTT_TOPIC_CONTROL then handleRelayControl message w2 else w2)"


fun status_publishes :: "event list \<Rightarrow> json_doc list" where
  "status_publishes [] = []"
| "status_publishes (MqttPublish topic doc # es) =
     (if topic = MQTT_TOPIC_STATUS then doc # status_publishes es else status_publishes es)"
| "status_publishes (e # es) = status_publishes es"

fun gpio_writes :: "event list \<Rightarrow> (int \<times> bool) list" where
  "gpio_writes [] = []"
| "gpio_writes (DigitalWrite pin v # es) = (pin, v) # gpio_writes es"
| "gpio_writes (e # es) = gpio_writes es"

section \<open>Floating-point arithmetic of the calibration\<close>

text \<open>
  The conversions of main.cpp are written with \<open>double\<close> literals, so C++ evaluates
  \<open>raw * 3.3 / 4095.0 * 11.0\<close> in IEEE-754 double precision (each operation rounded to
  53 significant bits, round to nearest, ties to even) and the initialisation of the
  \<open>float\<close> variable rounds the result to 24 significant bits. A floating-point value is
  modelled by the rational number it denotes. \<open>fp_round p\<close> rounds a rational to
  \<open>p\<close> significant bits with an unbounded exponent: it agrees with IEEE-754 wherever
  the result is a normal number. For raw readings in \<open>[0, 4095]\<close> every intermediate
  value of the conversions is 0 or lies between \<open>2 ^ -11\<close> and \<open>2 ^ 14\<close>.
\<close>

text \<open>\<open>ilog2 x\<close> is the binary exponent of \<open>x \<noteq> 0\<close>: the integer \<open>e\<close> with
  \<open>2 ^ e \<le> \<bar>x\<bar> < 2 ^ (e + 1)\<close>.\<close>

definition ilog2 :: "rat \<Rightarrow> int" where
  "ilog2 x =
     (case quotient_of \<bar>x\<bar> of
        (n, d) \<Rightarrow> let l = bitlen n - bitlen d in if 2 powi l \<le> \<bar>x\<bar> then l else l - 1)"

definition round_even :: "rat \<Rightarrow> int" where
  "round_even m =
     (let f = \<lfloor>m\<rfloor>; r = m - of_int f
      in if r < 1 / 2 then f
         else if 1 / 2 < r then f + 1
         else if even f then f else f + 1)"

definition fp_round :: "nat \<Rightarrow> rat \<Rightarrow> rat" where
  "fp_round p x =
     (if x = 0 then 0
      else let e = ilog2 x - (int p - 1) in of_int (round_even (x / 2 powi e)) * 2 powi e)"

definition to_double :: "rat \<Rightarrow> rat" where
  "to_double x = fp_round 53 x"

definition to_float :: "rat \<Rightarrow> rat" where
  "to_float x = fp_round 24 x"

definition double_mul :: "rat \<Rightarrow> rat \<Rightarrow> rat" where
  "double_mul a b = to_double (a * b)"

definition double_div :: "rat \<Rightarrow> rat \<Rightarrow> rat" where
  "double_div a b = to_double (a / b)"

text \<open>The \<open>double\<close> literals of the conversions; 4095.0 and 11.0 are exact.\<close>

definition lit_3_3 :: rat where "lit_3_3 = to_double (33 / 10)"
definition lit_4095 :: rat where "lit_4095 = 4095"
definition SOLAR_VOLTAGE_RATIO :: rat where "SOLAR_VOLTAGE_RATIO = 11"
definition BATTERY_VOLTAGE_RATIO :: rat where "BATTERY_VOLTAGE_RATIO = 11"
definition CURRENT_SENSOR_RATIO :: rat where "CURRENT_SENSOR_RATIO = to_double (185 / 1000)"

section \<open>HTTP fallback, sampling and the sensor publish\<close>

definition sendDataToAPI :: "rat \<Rightarrow> rat \<Rightarrow> rat \<Rightarrow> int \<Rightarrow> world \<Rightarrow> world" where
  "sendDataToAPI solarVoltage solarCurrent batteryVoltage chargeStatus w =
     (if WiFi_status w \<noteq> WL_CONNECTED then polled w
      else
        let w1 = emit (HttpHeader ''Content-Type'' ''application/json'')
                   (emit (HttpBegin API_BASE_URL) (polled w));
            doc = [(''solarVoltage'', JFloat solarVoltage),
                   (''solarCurrent'', JFloat solarCurrent),
                   (''batteryVoltage'', JFloat batteryVoltage),
                   (''chargeStatus'', JInt chargeStatus),
                   (''timestamp'', JUInt (millis w1))];
            w2 = emit (HttpPost doc) w1;
            httpResponseCode = http_response w2;
            w3 = (if httpResponseCode > 0 then serial ''Data sent to API successfully'' w2
                  else serial ''Error sending data to API'' w2)
        in emit HttpEnd w3)"

definition readSensors :: "world \<Rightarrow> world" where
  "readSensors w =
     (let solarVoltageRaw = analogRead SOLAR_VOLTAGE_PIN w;
          solarCurrentRaw = analogRead SOLAR_CURRENT_PIN w;
          batteryVoltageRaw = analogRead BATTERY_VOLTAGE_PIN w;
          chargeStatus = digitalRead CHARGE_STATUS_PIN w;
          solarVoltage = to_float (double_mul
             (double_div (double_mul (of_int solarVoltageRaw) lit_3_3) lit_4095)
             SOLAR_VOLTAGE_RATIO);
          solarCurrent = to_float (double_div
             (double_div (double_mul (of_int solarCurrentRaw) lit_3_3) lit_4095)
             CURRENT_SENSOR_RATIO);
          batteryVoltage = to_float (double_mul
             (double_div (double_mul (of_int batteryVoltageRaw) lit_3_3) lit_4095)
             BATTERY_VOLTAGE_RATIO);
          w1 = serial ''=== Sensor Readings ==='' w;
          w2 = emit (SerialPrintf ''Solar Voltage: %.2fV\<newline>'' [JFloat solarVoltage]) w1;
          w3 = emit (SerialPrintf ''Solar Current: %.2fA\<newline>'' [JFloat solarCurrent]) w2;
          w4 = emit (SerialPrintf ''Battery Voltage: %.2fV\<newline>'' [JFloat batteryVoltage]) w3;
          w5 = emit (SerialPrintf ''Charge Status: %d\<newline>'' [JInt chargeStatus]) w4;
          w6 = emit (SerialPrintf ''Relay 1: %s\<newline>''
                 [JStr (if relay1State w5 then ''ON'' else ''OFF'')]) w5;
          w7 = emit (SerialPrintf ''Relay 2: %s\<newline>''
                 [JStr (if relay2State w6 then ''ON'' else ''OFF'')]) w6;
          w8 = serial ''====================='' w7
      in sendDataToAPI solarVoltage solarCurrent batteryVoltage chargeStatus w8)"

definition publishSensorData :: "world \<Rightarrow> world" where
  "publishSensorData w =
     (if \<not> mqtt_connected w then w
      else
        let solarVoltageRaw = analogRead SOLAR_VOLTAGE_PIN w;
            solarCurrentRaw = analogRead SOLAR_CURRENT_PIN w;
            batteryVoltageRaw = analogRead BATTERY_VOLTAGE_PIN w;
            chargeStatus = digitalRead CHARGE_STATUS_PIN w;
            solarVoltage = to_float (double_mul
               (double_div (double_mul (of_int solarVoltageRaw) lit_3_3) lit_4095)
               SOLAR_VOLTAGE_RATIO);
            solarCurrent = to_float (double_div
               (double_div (double_mul (of_int solarCurrentRaw) lit_3_3) lit_4095)
               CURRENT_SENSOR_RATIO);
            batteryVoltage = to_float (double_mul
               (double_div (double_mul (of_int batteryVoltageRaw) lit_3_3) lit_4095)
               BATTERY_VOLTAGE_RATIO);
            doc = [(''solarVoltage'', JFloat solarVoltage),
                   (''solarCurrent'', JFloat solarCurrent),
                   (''batteryVoltage'', JFloat batteryVoltage),
                   (''chargeStatus'', JInt chargeStatus),
                   (''relay1State'', JBool (relay1State w)),
                   (''relay2State'', JBool (relay2State w)),
                   (''timestamp'', JUInt (millis w))];
            w1 = mqtt_publish MQTT_TOPIC_SENSOR_DATA doc w
        in if publish_ok w1 then serial ''Sensor data published to MQTT'' w1
           else serial ''Failed to publish sensor data to MQTT'' w1)"

section \<open>Boot: Wi-Fi and MQTT set-up\<close>

text \<open>The polling loop of \<open>setupWiFi\<close>; \<open>attempts\<close> is the loop counter, returned with
  the world at loop exit.\<close>

function wifi_wait :: "int \<Rightarrow> world \<Rightarrow> int \<times> world" where
  "wifi_wait attempts w =
     (if WiFi_status w \<noteq> WL_CONNECTED \<and> attempts < 20
      then wifi_wait (attempts + 1) (serial ''.'' (delay 500 (polled w)))
      else (attempts, polled w))"
  by pat_completeness auto
termination
  by (relation "measure (\<lambda>(attempts, w). nat (20 - attempts))") auto

declare wifi_wait.simps [simp del]

definition setupWiFi :: "world \<Rightarrow> world" where
  "setupWiFi w =
     (let w1 = serial WIFI_SSID (serial ''Connecting to WiFi: '' w);
          w2 = emit (WifiBegin WIFI_SSID WIFI_PASSWORD) w1;
          w3 = snd (wifi_wait 0 w2)
      in if WiFi_status w3 = WL_CONNECTED
         then serial (local_ip w3)
                (serial ''IP address: '' (serial ''\<newline>WiFi connected!'' (polled w3)))
         else serial ''\<newline>WiFi connection failed!'' (polled w3))"

definition setupMQTT :: "world \<Rightarrow> world" where
  "setupMQTT w =
     emit (MqttSetKeepAlive MQTT_KEEPALIVE)
       (emit MqttSetCallback (emit (MqttSetServer MQTT_BROKER MQTT_PORT) w))"

text \<open>The boot function of main.cpp (named with a suffix: its name is reserved).\<close>

definition setup_fn :: "world \<Rightarrow> world" where
  "setup_fn w =
     (let w1 = serial ''ESP32 Solar Charge Controller Starting...'' (emit (SerialBegin 115200) w);
          w2 = pinMode RELAY_2_PIN True (pinMode RELAY_1_PIN True
                 (pinMode CHARGE_STATUS_PIN False (pinMode BATTERY_VOLTAGE_PIN False
                   (pinMode SOLAR_CURRENT_PIN False (pinMode SOLAR_VOLTAGE_PIN False w1)))));
          w3 = digitalWrite RELAY_2_PIN False (digitalWrite RELAY_1_PIN False w2);
          w4 = setupWiFi w3;
          w5 = setupMQTT w4
      in serial ''Setup complete!'' w5)"

section \<open>Reconnection and the main loop\<close>

text \<open>\<open>reconnectMQTT\<close> is a \<open>while (!mqttClient.connected())\<close> loop with no bound, so
  the model is a partial function: \<open>None\<close> means that the call never returns.\<close>

partial_function (option) reconnectMQTT :: "world \<Rightarrow> world option" where
  "reconnectMQTT w =
     (if mqtt_connected w then Some w
      else
        let w1 = mqtt_connect MQTT_CLIENT_ID MQTT_USERNAME MQTT_PASSWORD
                   (serial ''Attempting MQTT connection...'' w)
        in if mqtt_connected w1
           then reconnectMQTT
                  (serial ''Subscribed to control topic''
                     (mqtt_subscribe MQTT_TOPIC_CONTROL (serial ''connected'' w1)))
           else reconnectMQTT
                  (delay 5000
                     (serial '' retrying in 5 seconds''
                        (emit (SerialVal (JInt (mqtt_rc w1))) (serial ''failed, rc='' w1)))))"

text \<open>
  \<open>mqttClient.loop()\<close> is PubSubClient code. What one servicing call does is given by
  the environment: nothing, the loss of the session, or the delivery of one inbound
  message to the registered callback. A client that is not connected delivers nothing.
\<close>

datatype service_event = Idle | LinkLost | Inbound string "char list"

definition mqttClient_loop :: "service_event \<Rightarrow> world \<Rightarrow> world" where
  "mqttClient_loop ev w =
     (if \<not> mqtt_connected w then w
      else case ev of
             Idle \<Rightarrow> w
           | LinkLost \<Rightarrow> w\<lparr>mqtt_connected := False\<rparr>
           | Inbound topic payload \<Rightarrow> mqttCallback topic payload w)"

text \<open>The two periodic tasks of \<open>loop()\<close>, as they stand after the servicing call.\<close>

definition loop_ticks :: "world \<Rightarrow> world" where
  "loop_ticks w =
     (let w1 = (if millis w - lastSensorRead w \<ge> SENSOR_READ_INTERVAL
                then (let r = readSensors w in r\<lparr>lastSensorRead := millis r\<rparr>)
                else w)
      in if millis w1 - lastMqttPublish w1 \<ge> 10000
         then (let p = publishSensorData w1 in p\<lparr>lastMqttPublish := millis p\<rparr>)
         else w1)"

definition loop :: "service_event \<Rightarrow> world \<Rightarrow> world option" where
  "loop ev w =
     (case (if \<not> mqtt_connected w then reconnectMQTT w else Some w) of
        None \<Rightarrow> None
      | Some w1 \<Rightarrow> Some (loop_ticks (mqttClient_loop ev w1)))"

section \<open>Concrete worlds\<close>

text \<open>The device at power-on: both relays off, nothing logged, no network, an
  unreachable broker, all inputs at 0.\<close>

definition boot_world :: world where
  "boot_world =
     \<lparr>relay1State = False, relay2State = False, lastSensorRead = 0, lastMqttPublish = 0,
      pin_level = (\<lambda>_. False), adc = (\<lambda>_. 0), digital_in = (\<lambda>_. 0), clock = 0,
      wifi_status = (\<lambda>_. WL_DISCONNECTED), wifi_polls = 0, local_ip = ''0.0.0.0'',
      mqtt_connected = False, connect_result = (\<lambda>_. False), connect_attempts = 0,
      mqtt_rc = - 2, publish_ok = True, http_response = 200, trace = []\<rparr>"

text \<open>The same device with an established broker session.\<close>

definition online_world :: world where
  "online_world = boot_world\<lparr>mqtt_connected := True\<rparr>"

text \<open>The four commands of the control topic with the pin each one drives and the
  level it commands.\<close>

definition command_table :: "(string \<times> int \<times> bool) list" where
  "command_table =
     [(''relay1_on'', RELAY_1_PIN, True), (''relay1_off'', RELAY_1_PIN, False),
      (''relay2_on'', RELAY_2_PIN, True), (''relay2_off'', RELAY_2_PIN, False)]"

section \<open>The calibration, named\<close>

text \<open>The conversion expressions of \<open>readSensors\<close> and \<open>publishSensorData\<close> (the two
  functions spell out the same three expressions), as functions of the raw reading.\<close>

definition calib_voltage :: "int \<Rightarrow> rat \<Rightarrow> rat" where
  "calib_voltage raw ratio =
     to_float (double_mul (double_div (double_mul (of_int raw) lit_3_3) lit_4095) ratio)"

definition calib_current :: "int \<Rightarrow> rat" where
  "calib_current raw =
     to_float (double_div (double_div (double_mul (of_int raw) lit_3_3) lit_4095)
       CURRENT_SENSOR_RATIO)"

text \<open>The console dump of \<open>readSensors\<close> for given readings.\<close>

definition sensor_console :: "rat \<Rightarrow> rat \<Rightarrow> rat \<Rightarrow> int \<Rightarrow> world \<Rightarrow> event list" where
  "sensor_console sv sc bv cs w =
     [SerialOut ''=== Sensor Readings ==='',
      SerialPrintf ''Solar Voltage: %.2fV\<newline>'' [JFloat sv],
      SerialPrintf ''Solar Current: %.2fA\<newline>'' [JFloat sc],
      SerialPrintf ''Battery Voltage: %.2fV\<newline>'' [JFloat bv],
      SerialPrintf ''Charge Status: %d\<newline>'' [JInt cs],
      SerialPrintf ''Relay 1: %s\<newline>'' [JStr (if relay1State w then ''ON'' else ''OFF'')],
      SerialPrintf ''Relay 2: %s\<newline>'' [JStr (if relay2State w then ''ON'' else ''OFF'')],
      SerialOut ''====================='']"

text \<open>The sensor document that \<open>publishSensorData\<close> builds for given readings.\<close>

definition sensor_doc :: "rat \<Rightarrow> rat \<Rightarrow> rat \<Rightarrow> int \<Rightarrow> world \<Rightarrow> json_doc" where
  "sensor_doc sv sc bv cs w =
     [(''solarVoltage'', JFloat sv), (''solarCurrent'', JFloat sc),
      (''batteryVoltage'', JFloat bv), (''chargeStatus'', JInt cs),
      (''relay1State'', JBool (relay1State w)), (''relay2State'', JBool (relay2State w)),
      (''timestamp'', JUInt (millis w))]"

text \<open>Rounding to three decimals, as the expected payloads of the specification are
  given.\<close>

definition round3 :: "rat \<Rightarrow> rat" where
  "round3 x = of_int (round (x * 1000)) / 1000"

text \<open>One unit in the last place of IEEE-754 single precision at \<open>x\<close>: the distance
  between neighbouring 24-bit numbers in the binade of \<open>x\<close>.\<close>

definition ulp_single :: "rat \<Rightarrow> rat" where
  "ulp_single x = (if x = 0 then 0 else 2 powi (ilog2 x - 23))"

text \<open>\<open>a\<close> approximates \<open>b\<close> with relative error at most \<open>\<delta>\<close>.\<close>

definition close_to :: "rat \<Rightarrow> rat \<Rightarrow> rat \<Rightarrow> bool" where
  "close_to \<delta> a b \<longleftrightarrow> \<bar>a - b\<bar> \<le> \<delta> * \<bar>b\<bar>"

section \<open>Reading the log\<close>

fun delays :: "event list \<Rightarrow> 32 word list" where
  "delays [] = []"
| "delays (Delay ms # es) = ms # delays es"
| "delays (e # es) = delays es"

fun mqtt_publishes :: "event list \<Rightarrow> (string \<times> json_doc) list" where
  "mqtt_publishes [] = []"
| "mqtt_publishes (MqttPublish topic doc # es) = (topic, doc) # mqtt_publishes es"
| "mqtt_publishes (e # es) = mqtt_publishes es"

fun http_posts :: "event list \<Rightarrow> json_doc list" where
  "http_posts [] = []"
| "http_posts (HttpPost doc # es) = doc # http_posts es"
| "http_posts (e # es) = http_posts es"

section \<open>Closed forms of the two waiting loops\<close>

text \<open>What one failed and one successful pass through the body of the
  \<open>reconnectMQTT\<close> loop add to the log.\<close>

definition failed_attempt :: "world \<Rightarrow> event list" where
  "failed_attempt w =
     [SerialOut ''Attempting MQTT connection...'',
      MqttConnect MQTT_CLIENT_ID MQTT_USERNAME MQTT_PASSWORD,
      SerialOut ''failed, rc='', SerialVal (JInt (mqtt_rc w)),
      SerialOut '' retrying in 5 seconds'', Delay 5000]"

definition successful_attempt :: "event list" where
  "successful_attempt =
     [SerialOut ''Attempting MQTT connection...'',
      MqttConnect MQTT_CLIENT_ID MQTT_USERNAME MQTT_PASSWORD,
      SerialOut ''connected'', MqttSubscribe MQTT_TOPIC_CONTROL,
      SerialOut ''Subscribed to control topic'']"

text \<open>The world after \<open>n\<close> failed connect attempts followed by a successful one.\<close>

definition reconnected :: "nat \<Rightarrow> world \<Rightarrow> world" where
  "reconnected n w =
     w\<lparr>mqtt_connected := True,
       connect_attempts := connect_attempts w + n + 1,
       clock := clock w + 5000 * of_nat n,
       trace := trace w @ concat (replicate n (failed_attempt w)) @ successful_attempt\<rparr>"

text \<open>The world at the exit of the polling loop of \<open>setupWiFi\<close> after \<open>n\<close> polls that
  did not find the station connected.\<close>

definition waited :: "nat \<Rightarrow> world \<Rightarrow> world" where
  "waited n w =
     w\<lparr>wifi_polls := wifi_polls w + n + 1,
       clock := clock w + 500 * of_nat n,
       trace := trace w @ concat (replicate n [Delay 500, SerialOut ''.''])\<rparr>"

section \<open>Further concrete worlds\<close>

text \<open>A broker that refuses the first two connect attempts and accepts the third.\<close>

definition flaky_world :: world where
  "flaky_world = boot_world\<lparr>connect_result := (\<lambda>k. 2 \<le> k)\<rparr>"

text \<open>Wi-Fi up, and a backend that answers every POST with 404.\<close>

definition not_found_world :: world where
  "not_found_world = boot_world\<lparr>wifi_status := (\<lambda>_. WL_CONNECTED), http_response := 404\<rparr>"

text \<open>Wi-Fi up, and a backend that cannot be reached: \<open>http.POST\<close> returns the
  library's error code for a refused connection.\<close>

definition refused_world :: world where
  "refused_world = boot_world\<lparr>wifi_status := (\<lambda>_. WL_CONNECTED), http_response := - 1\<rparr>"

text \<open>A station that is associated from the fourth status poll on.\<close>

definition late_wifi_world :: world where
  "late_wifi_world =
     boot_world\<lparr>wifi_status := (\<lambda>k. if 3 \<le> k then WL_CONNECTED else WL_DISCONNECTED)\<rparr>"

text \<open>Ten seconds after boot: no session, an unreachable broker, Wi-Fi up, both ticks
  due.\<close>

definition blocked_world :: world where
  "blocked_world = boot_world\<lparr>clock := 10000, wifi_status := (\<lambda>_. WL_CONNECTED)\<rparr>"

text \<open>Ten seconds after boot: a session that is still up, Wi-Fi up, both ticks due.\<close>

definition outage_world :: world where
  "outage_world = online_world\<lparr>clock := 10000, wifi_status := (\<lambda>_. WL_CONNECTED)\<rparr>"

text \<open>The "happy telemetry" scenario: a connected device whose ADC returns 2048, 1024
  and 1800 and whose charge line reads 1.\<close>

definition telemetry_world :: world where
  "telemetry_world =
     online_world\<lparr>adc := (\<lambda>pin. if pin = SOLAR_VOLTAGE_PIN then 2048
                            else if pin = SOLAR_CURRENT_PIN then 1024
                            else if pin = BATTERY_VOLTAGE_PIN then 1800 else 0),
                  digital_in := (\<lambda>pin. if pin = CHARGE_STATUS_PIN then 1 else 0)\<rparr>"

section \<open>Basic facts\<close>

lemmas prim_defs = emit_def serial_def millis_def delay_def pinMode_def digitalWrite_def
  analogRead_def digitalRead_def WiFi_status_def polled_def mqtt_connect_def
  mqtt_subscribe_def mqtt_publish_def

lemmas pin_defs = RELAY_1_PIN_def RELAY_2_PIN_def SOLAR_VOLTAGE_PIN_def SOLAR_CURRENT_PIN_def
  BATTERY_VOLTAGE_PIN_def CHARGE_STATUS_PIN_def

lemma status_publishes_append:
  "status_publishes (es @ fs) = status_publishes es @ status_publishes fs"
  by (induction es rule: status_publishes.induct) simp_all

lemma gpio_writes_append: "gpio_writes (es @ fs) = gpio_writes es @ gpio_writes fs"
  by (induction es rule: gpio_writes.induct) simp_all

lemma payload_to_String_append: "payload_to_String message payload = message @ payload"
  by (induction payload arbitrary: message) simp_all

lemma publishStatus_offline: "\<not> mqtt_connected w \<Longrightarrow> publishStatus w = w"
  by (simp add: publishStatus_def)

lemma publishStatus_online:
  "mqtt_connected w \<Longrightarrow>
   publishStatus w =
     w\<lparr>trace := trace w @
        [MqttPublish MQTT_TOPIC_STATUS
           [(''relay1'', JBool (relay1State w)), (''relay2'', JBool (relay2State w)),
            (''timestamp'', JUInt (clock w))],
         SerialOut (if publish_ok w then ''Status published to MQTT''
                    else ''Failed to publish status to MQTT'')]\<rparr>"
  by (simp add: publishStatus_def prim_defs Let_def)

lemma c_str_commands:
  "c_str ''relay1_on'' = ''relay1_on''" "c_str ''relay1_off'' = ''relay1_off''"
  "c_str ''relay2_on'' = ''relay2_on''" "c_str ''relay2_off'' = ''relay2_off''"
  by (simp_all add: c_str_def)

lemma c_str_command_table: "(cmd, pin, v) \<in> set command_table \<Longrightarrow> c_str cmd = cmd"
  by (auto simp add: command_table_def c_str_commands)


lemma handle_c_str_command:
  "(cmd, pin, v) \<in> set command_table \<Longrightarrow> c_str message = cmd \<Longrightarrow>
   handleRelayControl message w =
     publishStatus
       (w\<lparr>pin_level := (pin_level w)(pin := v),
          relay1State := (if pin = RELAY_1_PIN then v else relay1State w),
          relay2State := (if pin = RELAY_2_PIN then v else relay2State w),
          trace := trace w @
            [DigitalWrite pin v,
             SerialOut ((if pin = RELAY_1_PIN then ''Relay 1 '' else ''Relay 2 '') @
                        (if v then ''ON'' else ''OFF''))]\<rparr>)"
  by (auto simp add: command_table_def handleRelayControl_def String_equals_def c_str_commands
        prim_defs pin_defs intro!: arg_cong [where f = publishStatus])

lemma handle_command:
  "(message, pin, v) \<in> set command_table \<Longrightarrow>
   handleRelayControl message w =
     publishStatus
       (w\<lparr>pin_level := (pin_level w)(pin := v),
          relay1State := (if pin = RELAY_1_PIN then v else relay1State w),
          relay2State := (if pin = RELAY_2_PIN then v else relay2State w),
          trace := trace w @
            [DigitalWrite pin v,
             SerialOut ((if pin = RELAY_1_PIN then ''Relay 1 '' else ''Relay 2 '') @
                        (if v then ''ON'' else ''OFF''))]\<rparr>)"
  by (rule handle_c_str_command) (simp_all add: c_str_command_table)

section \<open>The command interpreter\<close>




text \<open>
  C2, as the code has it. For each of the four commands, whether or not the MQTT client
  is connected: the named relay's pin and state take the commanded value and the other
  relay's pin and state are unchanged. While the client is connected the log grows by
  exactly the GPIO write, a console line, the status publish and a console line, in
  this order, and the published document carries the relay states as they are after
  the change. While it is not connected the log grows by the GPIO write and a console
  line only.
\<close>

theorem handleRelayControl_command_then_status:
  "(message, pin, v) \<in> set command_table \<Longrightarrow>
   (pin = RELAY_1_PIN \<or> pin = RELAY_2_PIN) \<and>
   pin_level (handleRelayControl message w) = (pin_level w)(pin := v) \<and>
   relay1State (handleRelayControl message w) = (if pin = RELAY_1_PIN then v else relay1State w) \<and>
   relay2State (handleRelayControl message w) = (if pin = RELAY_2_PIN then v else relay2State w) \<and>
   (mqtt_connected w \<longrightarrow>
      (\<exists>s1 s2. trace (handleRelayControl message w) =
         trace w @
           [DigitalWrite pin v, SerialOut s1,
            MqttPublish MQTT_TOPIC_STATUS
              [(''relay1'', JBool (relay1State (handleRelayControl message w))),
               (''relay2'', JBool (relay2State (handleRelayControl message w))),
               (''timestamp'', JUInt (millis w))],
            SerialOut s2])) \<and>
   (\<not> mqtt_connected w \<longrightarrow>
      (\<exists>s1. trace (handleRelayControl message w) = trace w @ [DigitalWrite pin v, SerialOut s1]))"
proof (cases "mqtt_connected w")
  case True
  assume "(message, pin, v) \<in> set command_table"
  with True show ?thesis
    by (simp add: handle_command publishStatus_online millis_def)
       (auto simp add: command_table_def)
next
  case False
  assume "(message, pin, v) \<in> set command_table"
  with False show ?thesis
    by (simp add: handle_command publishStatus_offline)
       (auto simp add: command_table_def)
qed

text \<open>C2, witness: \<open>relay1_on\<close> on the connected device and \<open>relay2_off\<close>, after
  \<open>relay2_on\<close>, on the device at power-on.\<close>

theorem handleRelayControl_command_then_status_witness:
  "(''relay1_on'', RELAY_1_PIN, True) \<in> set command_table \<and> mqtt_connected online_world \<and>
   relay1State (handleRelayControl ''relay1_on'' online_world) \<and>
   \<not> relay2State (handleRelayControl ''relay1_on'' online_world) \<and>
   pin_level (handleRelayControl ''relay1_on'' online_world) RELAY_1_PIN \<and>
   \<not> pin_level (handleRelayControl ''relay1_on'' online_world) RELAY_2_PIN \<and>
   (\<exists>s1 s2. trace (handleRelayControl ''relay1_on'' online_world) =
      [DigitalWrite RELAY_1_PIN True, SerialOut s1,
       MqttPublish MQTT_TOPIC_STATUS
         [(''relay1'', JBool True), (''relay2'', JBool False), (''timestamp'', JUInt 0)],
       SerialOut s2]) \<and>
   (''relay2_on'', RELAY_2_PIN, True) \<in> set command_table \<and> \<not> mqtt_connected boot_world \<and>
   relay2State (handleRelayControl ''relay2_on'' boot_world) \<and>
   \<not> relay1State (handleRelayControl ''relay2_on'' boot_world) \<and>
   pin_level (handleRelayControl ''relay2_on'' boot_world) RELAY_2_PIN \<and>
   (\<exists>s1. trace (handleRelayControl ''relay2_on'' boot_world) =
      [DigitalWrite RELAY_2_PIN True, SerialOut s1])"
proof -
  have h1: "(''relay1_on'', RELAY_1_PIN, True) \<in> set command_table"
    by (simp add: command_table_def)
  have h2: "mqtt_connected online_world"
    by (simp add: online_world_def)
  have h3: "(''relay2_on'', RELAY_2_PIN, True) \<in> set command_table"
    by (simp add: command_table_def)
  have h4: "\<not> mqtt_connected boot_world"
    by (simp add: boot_world_def)
  have w: "\<not> relay1State online_world" "\<not> relay2State online_world"
    "pin_level online_world = (\<lambda>_. False)" "trace online_world = []" "clock online_world = 0"
    "\<not> relay1State boot_world" "\<not> relay2State boot_world"
    "pin_level boot_world = (\<lambda>_. False)" "trace boot_world = []"
    by (simp_all add: online_world_def boot_world_def)
  from handleRelayControl_command_then_status [OF h1, of online_world] h2 w
  have on: "relay1State (handleRelayControl ''relay1_on'' online_world)"
    "\<not> relay2State (handleRelayControl ''relay1_on'' online_world)"
    "pin_level (handleRelayControl ''relay1_on'' online_world) RELAY_1_PIN"
    "\<not> pin_level (handleRelayControl ''relay1_on'' online_world) RELAY_2_PIN"
    "\<exists>s1 s2. trace (handleRelayControl ''relay1_on'' online_world) =
      [DigitalWrite RELAY_1_PIN True, SerialOut s1,
       MqttPublish MQTT_TOPIC_STATUS
         [(''relay1'', JBool True), (''relay2'', JBool False), (''timestamp'', JUInt 0)],
       SerialOut s2]"
    by (auto simp add: pin_defs millis_def)
  from handleRelayControl_command_then_status [OF h3, of boot_world] h4 w
  have off: "relay2State (handleRelayControl ''relay2_on'' boot_world)"
    "\<not> relay1State (handleRelayControl ''relay2_on'' boot_world)"
    "pin_level (handleRelayControl ''relay2_on'' boot_world) RELAY_2_PIN"
    "\<exists>s1. trace (handleRelayControl ''relay2_on'' boot_world) =
      [DigitalWrite RELAY_2_PIN True, SerialOut s1]"
    by (simp_all add: pin_defs)
  from h1 h2 h3 h4 on off show ?thesis by blast
qed

text \<open>C2, counterexample to "emits a status publish": on a device whose client is not
  connected, \<open>relay1_on\<close> switches the relay and the log holds the GPIO write and a
  console line only.\<close>

theorem command_without_status_when_offline:
  "\<not> mqtt_connected boot_world \<and>
   relay1State (handleRelayControl ''relay1_on'' boot_world) \<and>
   trace (handleRelayControl ''relay1_on'' boot_world) =
     [DigitalWrite RELAY_1_PIN True, SerialOut ''Relay 1 ON''] \<and>
   status_publishes (trace (handleRelayControl ''relay1_on'' boot_world)) = []"
  by (simp add: handleRelayControl_def String_equals_def c_str_def publishStatus_def prim_defs
        boot_world_def)

text \<open>
  C10. For each of the four commands processed while the MQTT client is not connected:
  the relay's pin and state are changed to the commanded value all the same, the log
  grows by the GPIO write and a console line only, and nothing is published on the
  status topic (\<open>publishStatus\<close> returns at its guard).
\<close>

theorem handleRelayControl_offline_unacknowledged:
  "(message, pin, v) \<in> set command_table \<Longrightarrow> \<not> mqtt_connected w \<Longrightarrow>
   pin_level (handleRelayControl message w) = (pin_level w)(pin := v) \<and>
   relay1State (handleRelayControl message w) = (if pin = RELAY_1_PIN then v else relay1State w) \<and>
   relay2State (handleRelayControl message w) = (if pin = RELAY_2_PIN then v else relay2State w) \<and>
   (\<exists>s. trace (handleRelayControl message w) = trace w @ [DigitalWrite pin v, SerialOut s]) \<and>
   status_publishes (trace (handleRelayControl message w)) = status_publishes (trace w)"
  by (simp add: handle_command publishStatus_offline status_publishes_append)

text \<open>C10, witness: \<open>relay2_on\<close> on the device at power-on.\<close>

theorem handleRelayControl_offline_unacknowledged_witness:
  "(''relay2_on'', RELAY_2_PIN, True) \<in> set command_table \<and> \<not> mqtt_connected boot_world \<and>
   relay2State (handleRelayControl ''relay2_on'' boot_world) \<and>
   \<not> relay1State (handleRelayControl ''relay2_on'' boot_world) \<and>
   pin_level (handleRelayControl ''relay2_on'' boot_world) RELAY_2_PIN \<and>
   status_publishes (trace (handleRelayControl ''relay2_on'' boot_world)) = []"
proof -
  have h1: "(''relay2_on'', RELAY_2_PIN, True) \<in> set command_table"
    by (simp add: command_table_def)
  have h2: "\<not> mqtt_connected boot_world"
    by (simp add: boot_world_def)
  show ?thesis
    using h1 h2 handleRelayControl_offline_unacknowledged [OF h1 h2]
    by (simp add: pin_defs boot_world_def)
qed

text \<open>
  C9. For every inbound message whose topic is not the control topic, \<open>mqttCallback\<close>
  only writes four console lines: the command interpreter is not called, both relay
  states and both relay pins keep their values, no GPIO write is made and nothing is
  published on the status topic, whatever the payload.
\<close>

theorem mqttCallback_other_topic_frame:
  "topic \<noteq> MQTT_TOPIC_CONTROL \<Longrightarrow>
   mqttCallback topic payload w =
     w\<lparr>trace := trace w @
        [SerialOut ''Message received on topic: '', SerialOut topic,
         SerialOut ''Message: '', SerialOut payload]\<rparr> \<and>
   relay1State (mqttCallback topic payload w) = relay1State w \<and>
   relay2State (mqttCallback topic payload w) = relay2State w \<and>
   pin_level (mqttCallback topic payload w) = pin_level w \<and>
   gpio_writes (trace (mqttCallback topic payload w)) = gpio_writes (trace w) \<and>
   status_publishes (trace (mqttCallback topic payload w)) = status_publishes (trace w)"
  by (simp add: mqttCallback_def prim_defs Let_def payload_to_String_append
        status_publishes_append gpio_writes_append)

text \<open>C9, witness: the payload \<open>relay1_on\<close> arriving on the sensor topic.\<close>

theorem mqttCallback_other_topic_frame_witness:
  "MQTT_TOPIC_SENSOR_DATA \<noteq> MQTT_TOPIC_CONTROL \<and>
   \<not> relay1State (mqttCallback MQTT_TOPIC_SENSOR_DATA ''relay1_on'' online_world) \<and>
   \<not> pin_level (mqttCallback MQTT_TOPIC_SENSOR_DATA ''relay1_on'' online_world) RELAY_1_PIN \<and>
   status_publishes (trace (mqttCallback MQTT_TOPIC_SENSOR_DATA ''relay1_on'' online_world)) = []"
proof -
  have h: "MQTT_TOPIC_SENSOR_DATA \<noteq> MQTT_TOPIC_CONTROL"
    by (simp add: MQTT_TOPIC_SENSOR_DATA_def MQTT_TOPIC_CONTROL_def)
  show ?thesis
    using h mqttCallback_other_topic_frame [OF h, of "''relay1_on''" online_world]
    by (simp add: online_world_def boot_world_def)
qed

section \<open>Reconnection\<close>

lemma delays_append: "delays (es @ fs) = delays es @ delays fs"
  by (induction es rule: delays.induct) simp_all

lemma delays_dots: "delays (concat (replicate n [Delay ms, SerialOut s])) = replicate n ms"
  by (induction n) simp_all

lemma mqtt_publishes_append: "mqtt_publishes (es @ fs) = mqtt_publishes es @ mqtt_publishes fs"
  by (induction es rule: mqtt_publishes.induct) simp_all

lemma http_posts_append: "http_posts (es @ fs) = http_posts es @ http_posts fs"
  by (induction es rule: http_posts.induct) simp_all

lemma reconnect_fail_step:
  "\<not> mqtt_connected w \<Longrightarrow> \<not> connect_result w (connect_attempts w) \<Longrightarrow>
   reconnectMQTT w =
     reconnectMQTT (w\<lparr>mqtt_connected := False,
                      connect_attempts := Suc (connect_attempts w), clock := clock w + 5000,
                      trace := trace w @ failed_attempt w\<rparr>)"
  by (subst reconnectMQTT.simps) (simp add: prim_defs Let_def failed_attempt_def)

lemma reconnect_success_step:
  "\<not> mqtt_connected w \<Longrightarrow> connect_result w (connect_attempts w) \<Longrightarrow>
   reconnectMQTT w = Some (reconnected 0 w)"
  apply (subst reconnectMQTT.simps)
  apply (simp add: prim_defs Let_def)
  apply (subst reconnectMQTT.simps)
  apply (simp add: reconnected_def successful_attempt_def)
  done

lemma reconnect_after_failures:
  "\<not> mqtt_connected w \<Longrightarrow>
   (\<forall>k<n. \<not> connect_result w (connect_attempts w + k)) \<Longrightarrow>
   connect_result w (connect_attempts w + n) \<Longrightarrow>
   reconnectMQTT w = Some (reconnected n w)"
proof (induction n arbitrary: w)
  case 0
  then show ?case by (simp add: reconnect_success_step)
next
  case (Suc n)
  let ?w = "w\<lparr>mqtt_connected := False,
                      connect_attempts := Suc (connect_attempts w), clock := clock w + 5000,
               trace := trace w @ failed_attempt w\<rparr>"
  from Suc.prems have first: "\<not> connect_result w (connect_attempts w)"
    by (metis add.right_neutral zero_less_Suc)
  have step: "reconnectMQTT w = reconnectMQTT ?w"
    using Suc.prems(1) first by (rule reconnect_fail_step)
  have "reconnectMQTT ?w = Some (reconnected n ?w)"
  proof (rule Suc.IH)
    show "\<not> mqtt_connected ?w" using Suc.prems(1) by simp
    show "\<forall>k<n. \<not> connect_result ?w (connect_attempts ?w + k)"
      using Suc.prems(2) by (auto dest: spec [where x = "Suc k" for k])
    show "connect_result ?w (connect_attempts ?w + n)"
      using Suc.prems(3) by simp
  qed
  moreover have "reconnected n ?w = reconnected (Suc n) w"
    by (simp add: reconnected_def failed_attempt_def algebra_simps)
  ultimately show ?case using step by simp
qed

lemma reconnect_returns_only_connected:
  assumes "reconnectMQTT w = Some w'"
  shows "mqtt_connected w \<or> (\<exists>k\<ge>connect_attempts w. connect_result w k)"
proof (rule reconnectMQTT.raw_induct
    [where P = "\<lambda>w w'. mqtt_connected w \<or> (\<exists>k\<ge>connect_attempts w. connect_result w k)",
     OF _ assms])
  fix f :: "world \<Rightarrow> world option" and w w'
  assume IH: "\<And>x y. f x = Some y \<Longrightarrow>
                 mqtt_connected x \<or> (\<exists>k\<ge>connect_attempts x. connect_result x k)"
    and body: "(if mqtt_connected w then Some w
      else let w1 = mqtt_connect MQTT_CLIENT_ID MQTT_USERNAME MQTT_PASSWORD
                     (serial ''Attempting MQTT connection...'' w)
           in if mqtt_connected w1
              then f (serial ''Subscribed to control topic''
                      (mqtt_subscribe MQTT_TOPIC_CONTROL (serial ''connected'' w1)))
              else f (delay 5000
                      (serial '' retrying in 5 seconds''
                        (emit (SerialVal (JInt (mqtt_rc w1))) (serial ''failed, rc='' w1))))) =
     Some w'"
  show "mqtt_connected w \<or> (\<exists>k\<ge>connect_attempts w. connect_result w k)"
  proof (cases "mqtt_connected w \<or> connect_result w (connect_attempts w)")
    case True
    then show ?thesis by auto
  next
    case False
    with body have "f (w\<lparr>mqtt_connected := False,
                      connect_attempts := Suc (connect_attempts w), clock := clock w + 5000,
                      trace := trace w @ failed_attempt w\<rparr>) = Some w'"
      by (simp add: prim_defs Let_def failed_attempt_def)
    from IH [OF this] show ?thesis
      by (auto intro: Suc_leD)
  qed
qed

lemma reconnect_never_returns:
  "\<not> mqtt_connected w \<Longrightarrow> \<forall>k\<ge>connect_attempts w. \<not> connect_result w k \<Longrightarrow>
   reconnectMQTT w = None"
  using reconnect_returns_only_connected [of w] by (cases "reconnectMQTT w") auto

text \<open>
  C5, as the code has it. A call of \<open>reconnectMQTT\<close> with a disconnected client stays
  in its \<open>while\<close> loop until a connect attempt succeeds: every failed attempt is
  followed by a delay of 5 s and another attempt within the same call. With a broker
  that stays unreachable the call never returns. When the first \<open>n\<close> attempts fail and
  the next one succeeds, the call returns with the client connected and subscribed to
  the control topic, after \<open>n + 1\<close> attempts and \<open>n\<close> delays of 5 s.
\<close>

theorem reconnectMQTT_retries_until_connected:
  "\<not> mqtt_connected w \<Longrightarrow>
   ((\<forall>k\<ge>connect_attempts w. \<not> connect_result w k) \<longrightarrow> reconnectMQTT w = None) \<and>
   ((\<forall>k<n. \<not> connect_result w (connect_attempts w + k)) \<and>
       connect_result w (connect_attempts w + n) \<longrightarrow>
    reconnectMQTT w = Some (reconnected n w))"
  by (simp add: reconnect_never_returns reconnect_after_failures)

text \<open>C5, witness: a broker that accepts the third attempt; the call returns after two
  delays of 5 s.\<close>

theorem reconnectMQTT_retries_until_connected_witness:
  "\<not> mqtt_connected flaky_world \<and>
   reconnectMQTT flaky_world = Some (reconnected 2 flaky_world) \<and>
   mqtt_connected (reconnected 2 flaky_world) \<and>
   connect_attempts (reconnected 2 flaky_world) = 3 \<and>
   clock (reconnected 2 flaky_world) = 10000 \<and>
   delays (trace (reconnected 2 flaky_world)) = [5000, 5000] \<and>
   \<not> mqtt_connected boot_world \<and> reconnectMQTT boot_world = None"
proof -
  have h: "\<not> mqtt_connected flaky_world"
    by (simp add: flaky_world_def boot_world_def)
  have "(\<forall>k<2. \<not> connect_result flaky_world (connect_attempts flaky_world + k)) \<and>
        connect_result flaky_world (connect_attempts flaky_world + 2)"
    by (simp add: flaky_world_def boot_world_def)
  with reconnectMQTT_retries_until_connected [OF h, of 2]
  have flaky: "reconnectMQTT flaky_world = Some (reconnected 2 flaky_world)"
    by blast
  have h': "\<not> mqtt_connected boot_world"
    by (simp add: boot_world_def)
  have "\<forall>k\<ge>connect_attempts boot_world. \<not> connect_result boot_world k"
    by (simp add: boot_world_def)
  with reconnectMQTT_retries_until_connected [OF h', of 0]
  have never: "reconnectMQTT boot_world = None"
    by blast
  from flaky never h h' show ?thesis
    by (simp add: reconnected_def flaky_world_def boot_world_def failed_attempt_def
          successful_attempt_def numeral_2_eq_2)
qed

text \<open>C5, counterexample to "makes one connect attempt and returns": with the broker
  unreachable the call does not return, and neither does the iteration of \<open>loop\<close> that
  made it.\<close>

theorem reconnectMQTT_unreachable_never_returns:
  "\<not> mqtt_connected boot_world \<and> reconnectMQTT boot_world = None \<and> loop Idle boot_world = None"
  using reconnect_never_returns [of boot_world] by (simp add: boot_world_def loop_def)

section \<open>The HTTP fallback\<close>

text \<open>
  C6, as the code has it. \<open>sendDataToAPI\<close> returns no value. When Wi-Fi is not
  connected it makes no request and logs nothing (the world changes by the status poll
  only). Otherwise it makes exactly one POST of the reading and then writes one console
  line, which reports success exactly when the response code is positive, whatever the
  HTTP status, and an error when the code is zero or negative; relay and schedule state
  are untouched.
\<close>

theorem sendDataToAPI_outcome:
  "(WiFi_status w \<noteq> WL_CONNECTED \<longrightarrow>
      sendDataToAPI solarVoltage solarCurrent batteryVoltage chargeStatus w = polled w \<and>
      trace (sendDataToAPI solarVoltage solarCurrent batteryVoltage chargeStatus w) = trace w) \<and>
   (WiFi_status w = WL_CONNECTED \<longrightarrow>
      sendDataToAPI solarVoltage solarCurrent batteryVoltage chargeStatus w =
        (polled w)\<lparr>trace := trace w @
           [HttpBegin API_BASE_URL, HttpHeader ''Content-Type'' ''application/json'',
            HttpPost [(''solarVoltage'', JFloat solarVoltage),
                      (''solarCurrent'', JFloat solarCurrent),
                      (''batteryVoltage'', JFloat batteryVoltage),
                      (''chargeStatus'', JInt chargeStatus),
                      (''timestamp'', JUInt (millis w))],
            SerialOut (if 0 < http_response w then ''Data sent to API successfully''
                       else ''Error sending data to API''),
            HttpEnd]\<rparr>)"
  by (simp add: sendDataToAPI_def prim_defs Let_def)

text \<open>C6, witness: at power-on Wi-Fi is down and the call does nothing; with Wi-Fi up
  and a refused connection one POST is made and an error is logged.\<close>

theorem sendDataToAPI_outcome_witness:
  "WiFi_status boot_world \<noteq> WL_CONNECTED \<and>
   sendDataToAPI 12 1 13 1 boot_world = polled boot_world \<and>
   trace (sendDataToAPI 12 1 13 1 boot_world) = [] \<and>
   WiFi_status refused_world = WL_CONNECTED \<and>
   trace (sendDataToAPI 12 1 13 1 refused_world) =
     [HttpBegin API_BASE_URL, HttpHeader ''Content-Type'' ''application/json'',
      HttpPost [(''solarVoltage'', JFloat 12), (''solarCurrent'', JFloat 1),
                (''batteryVoltage'', JFloat 13), (''chargeStatus'', JInt 1),
                (''timestamp'', JUInt 0)],
      SerialOut ''Error sending data to API'', HttpEnd]"
  using sendDataToAPI_outcome [of boot_world 12 1 13 1]
    sendDataToAPI_outcome [of refused_world 12 1 13 1]
  by (simp add: boot_world_def refused_world_def prim_defs)

text \<open>C6, counterexample to "success exactly when the status is 2xx": a 404 answer is
  reported as success.\<close>

theorem sendDataToAPI_reports_success_on_404:
  "WiFi_status not_found_world = WL_CONNECTED \<and>
   http_response not_found_world = 404 \<and>
   \<not> (200 \<le> http_response not_found_world \<and> http_response not_found_world < 300) \<and>
   trace (sendDataToAPI 12 1 13 1 not_found_world) =
     [HttpBegin API_BASE_URL, HttpHeader ''Content-Type'' ''application/json'',
      HttpPost [(''solarVoltage'', JFloat 12), (''solarCurrent'', JFloat 1),
                (''batteryVoltage'', JFloat 13), (''chargeStatus'', JInt 1),
                (''timestamp'', JUInt 0)],
      SerialOut ''Data sent to API successfully'', HttpEnd]"
  by (simp add: sendDataToAPI_def prim_defs Let_def not_found_world_def boot_world_def)

section \<open>Boot\<close>

lemma wifi_wait_exit:
  "\<not> (WiFi_status w \<noteq> WL_CONNECTED \<and> attempts < 20) \<Longrightarrow>
   wifi_wait attempts w = (attempts, waited 0 w)"
  by (subst wifi_wait.simps) (simp only: if_not_P, simp add: waited_def prim_defs)

lemma wifi_wait_spec:
  "attempts \<le> 20 \<Longrightarrow>
   \<exists>n. wifi_wait attempts w = (attempts + int n, waited n w) \<and>
       attempts + int n \<le> 20 \<and>
       (\<forall>j<n. wifi_status w (wifi_polls w + j) \<noteq> WL_CONNECTED) \<and>
       (attempts + int n < 20 \<longrightarrow> wifi_status w (wifi_polls w + n) = WL_CONNECTED)"
proof (induction attempts w rule: wifi_wait.induct)
  case (1 attempts w)
  show ?case
  proof (cases "WiFi_status w \<noteq> WL_CONNECTED \<and> attempts < 20")
    case False
    then have "wifi_wait attempts w = (attempts, waited 0 w)"
      by (rule wifi_wait_exit)
    with False "1.prems" show ?thesis
      by (intro exI [where x = 0]) (auto simp add: WiFi_status_def)
  next
    case True
    let ?w = "serial ''.'' (delay 500 (polled w))"
    from True have le: "attempts + 1 \<le> 20" by simp
    from "1.IH" [OF True le] obtain n where
      run: "wifi_wait (attempts + 1) ?w = (attempts + 1 + int n, waited n ?w)"
      and bound: "attempts + 1 + int n \<le> 20"
      and before: "\<forall>j<n. wifi_status ?w (wifi_polls ?w + j) \<noteq> WL_CONNECTED"
      and at_exit: "attempts + 1 + int n < 20 \<longrightarrow>
                    wifi_status ?w (wifi_polls ?w + n) = WL_CONNECTED"
      by blast
    have same: "waited n ?w = waited (Suc n) w"
      by (simp add: waited_def prim_defs algebra_simps)
    have unfold: "wifi_wait attempts w = wifi_wait (attempts + 1) ?w"
      using True by (subst wifi_wait.simps) simp
    have all: "\<forall>j<Suc n. wifi_status w (wifi_polls w + j) \<noteq> WL_CONNECTED"
    proof (intro allI impI)
      fix j assume "j < Suc n"
      show "wifi_status w (wifi_polls w + j) \<noteq> WL_CONNECTED"
      proof (cases j)
        case 0
        with True show ?thesis by (simp add: WiFi_status_def)
      next
        case (Suc i)
        with \<open>j < Suc n\<close> before show ?thesis by (auto simp add: prim_defs)
      qed
    qed
    show ?thesis
      using unfold run same bound at_exit all
      by (intro exI [where x = "Suc n"]) (simp add: prim_defs)
  qed
qed

lemma setupWiFi_run:
  "\<exists>n\<le>20. 
     (\<forall>j<n. wifi_status w (wifi_polls w + j) \<noteq> WL_CONNECTED) \<and>
     (n < 20 \<longrightarrow> wifi_status w (wifi_polls w + n) = WL_CONNECTED) \<and>
     (\<exists>msgs. setupWiFi w =
        w\<lparr>wifi_polls := wifi_polls w + n + 2,
          clock := clock w + 500 * of_nat n,
          trace := trace w @
            [SerialOut ''Connecting to WiFi: '', SerialOut WIFI_SSID,
             WifiBegin WIFI_SSID WIFI_PASSWORD] @
            concat (replicate n [Delay 500, SerialOut ''.'']) @ map SerialOut msgs\<rparr>)"
proof -
  let ?w2 = "emit (WifiBegin WIFI_SSID WIFI_PASSWORD)
               (serial WIFI_SSID (serial ''Connecting to WiFi: '' w))"
  from wifi_wait_spec [of 0 ?w2] obtain n where
    run: "wifi_wait 0 ?w2 = (int n, waited n ?w2)"
    and bound: "int n \<le> 20"
    and before: "\<forall>j<n. wifi_status ?w2 (wifi_polls ?w2 + j) \<noteq> WL_CONNECTED"
    and at_exit: "int n < 20 \<longrightarrow> wifi_status ?w2 (wifi_polls ?w2 + n) = WL_CONNECTED"
    by auto
  show ?thesis
  proof (intro exI [where x = n] conjI)
    show "n \<le> 20" using bound by simp
    show "\<forall>j<n. wifi_status w (wifi_polls w + j) \<noteq> WL_CONNECTED"
      using before by (simp add: prim_defs)
    show "n < 20 \<longrightarrow> wifi_status w (wifi_polls w + n) = WL_CONNECTED"
      using at_exit by (simp add: prim_defs)
    show "\<exists>msgs. setupWiFi w =
        w\<lparr>wifi_polls := wifi_polls w + n + 2,
          clock := clock w + 500 * of_nat n,
          trace := trace w @
            [SerialOut ''Connecting to WiFi: '', SerialOut WIFI_SSID,
             WifiBegin WIFI_SSID WIFI_PASSWORD] @
            concat (replicate n [Delay 500, SerialOut ''.'']) @ map SerialOut msgs\<rparr>"
    proof -
      have eq: "setupWiFi w =
          (if WiFi_status (waited n ?w2) = WL_CONNECTED
           then serial (local_ip (waited n ?w2))
                  (serial ''IP address: ''
                     (serial ''\<newline>WiFi connected!'' (polled (waited n ?w2))))
           else serial ''\<newline>WiFi connection failed!'' (polled (waited n ?w2)))"
        by (simp only: setupWiFi_def Let_def run snd_conv)
      show ?thesis
      proof (cases "WiFi_status (waited n ?w2) = WL_CONNECTED")
        case True
        then show ?thesis
          by (intro exI [where x = "[''\<newline>WiFi connected!'', ''IP address: '', local_ip w]"])
             (simp add: eq, simp add: waited_def prim_defs)
      next
        case False
        then show ?thesis
          by (intro exI [where x = "[''\<newline>WiFi connection failed!'']"])
             (simp add: eq, simp add: waited_def prim_defs)
      qed
    qed
  qed
qed

lemma setup_fn_as_setupWiFi:
  "setup_fn w =
     (let w3 = w\<lparr>pin_level := (pin_level w)(RELAY_1_PIN := False, RELAY_2_PIN := False),
                 trace := trace w @
                   [SerialBegin 115200, SerialOut ''ESP32 Solar Charge Controller Starting...'',
                    PinMode SOLAR_VOLTAGE_PIN False, PinMode SOLAR_CURRENT_PIN False,
                    PinMode BATTERY_VOLTAGE_PIN False, PinMode CHARGE_STATUS_PIN False,
                    PinMode RELAY_1_PIN True, PinMode RELAY_2_PIN True,
                    DigitalWrite RELAY_1_PIN False, DigitalWrite RELAY_2_PIN False]\<rparr>;
          w4 = setupWiFi w3
      in w4\<lparr>trace := trace w4 @
            [MqttSetServer MQTT_BROKER MQTT_PORT, MqttSetCallback,
             MqttSetKeepAlive MQTT_KEEPALIVE, SerialOut ''Setup complete!'']\<rparr>)"
  by (simp add: setup_fn_def setupMQTT_def Let_def prim_defs)

text \<open>
  C8. \<open>setupWiFi\<close> and the boot function are total: the polling loop is defined by
  well-founded recursion on \<open>20 - attempts\<close>. The loop delays \<open>n \<le> 20\<close> times 500 ms,
  where the first \<open>n\<close> polls did not find the station connected and, if \<open>n < 20\<close>, poll
  \<open>n\<close> did: it returns at the first connected poll or after 20 attempts (10 s). The
  boot function waits exactly as long and then runs to its last line, also when Wi-Fi
  never associates.
\<close>

theorem setupWiFi_bounded_wait:
  "\<exists>n\<le>20.
     (\<forall>j<n. wifi_status w (wifi_polls w + j) \<noteq> WL_CONNECTED) \<and>
     (n < 20 \<longrightarrow> wifi_status w (wifi_polls w + n) = WL_CONNECTED) \<and>
     clock (setupWiFi w) = clock w + 500 * of_nat n \<and>
     delays (trace (setupWiFi w)) = delays (trace w) @ replicate n 500 \<and>
     clock (setup_fn w) = clock w + 500 * of_nat n \<and>
     delays (trace (setup_fn w)) = delays (trace w) @ replicate n 500 \<and>
     last (trace (setup_fn w)) = SerialOut ''Setup complete!''"
proof -
  let ?w3 = "w\<lparr>pin_level := (pin_level w)(RELAY_1_PIN := False, RELAY_2_PIN := False),
                 trace := trace w @
                   [SerialBegin 115200, SerialOut ''ESP32 Solar Charge Controller Starting...'',
                    PinMode SOLAR_VOLTAGE_PIN False, PinMode SOLAR_CURRENT_PIN False,
                    PinMode BATTERY_VOLTAGE_PIN False, PinMode CHARGE_STATUS_PIN False,
                    PinMode RELAY_1_PIN True, PinMode RELAY_2_PIN True,
                    DigitalWrite RELAY_1_PIN False, DigitalWrite RELAY_2_PIN False]\<rparr>"
  from setupWiFi_run [of w] obtain n msgs where
    n: "n \<le> 20" "\<forall>j<n. wifi_status w (wifi_polls w + j) \<noteq> WL_CONNECTED"
       "n < 20 \<longrightarrow> wifi_status w (wifi_polls w + n) = WL_CONNECTED"
    and run: "setupWiFi w =
        w\<lparr>wifi_polls := wifi_polls w + n + 2,
          clock := clock w + 500 * of_nat n,
          trace := trace w @
            [SerialOut ''Connecting to WiFi: '', SerialOut WIFI_SSID,
             WifiBegin WIFI_SSID WIFI_PASSWORD] @
            concat (replicate n [Delay 500, SerialOut ''.'']) @ map SerialOut msgs\<rparr>"
    by blast
  from setupWiFi_run [of ?w3] obtain n' msgs' where
    n': "n' \<le> 20" "\<forall>j<n'. wifi_status ?w3 (wifi_polls ?w3 + j) \<noteq> WL_CONNECTED"
       "n' < 20 \<longrightarrow> wifi_status ?w3 (wifi_polls ?w3 + n') = WL_CONNECTED"
    and run': "setupWiFi ?w3 =
        ?w3\<lparr>wifi_polls := wifi_polls ?w3 + n' + 2,
          clock := clock ?w3 + 500 * of_nat n',
          trace := trace ?w3 @
            [SerialOut ''Connecting to WiFi: '', SerialOut WIFI_SSID,
             WifiBegin WIFI_SSID WIFI_PASSWORD] @
            concat (replicate n' [Delay 500, SerialOut ''.'']) @ map SerialOut msgs'\<rparr>"
    by blast
  have same: "n' = n"
  proof (rule ccontr)
    assume "n' \<noteq> n"
    then consider "n' < n" | "n < n'" by linarith
    then show False
    proof cases
      case 1
      with n(1) n'(3) n(2) show False by auto
    next
      case 2
      with n'(1) n(3) n'(2) show False by auto
    qed
  qed
  have serial_delays: "delays (map SerialOut ms) = []" for ms
    by (induction ms) simp_all
  show ?thesis
    using n
    by (intro exI [where x = n])
       (simp add: run setup_fn_as_setupWiFi Let_def run' same delays_append delays_dots
          serial_delays)
qed

text \<open>C8, witness: when Wi-Fi never associates, boot takes 20 delays of 500 ms and
  completes; when the fourth poll finds the station associated, it takes three.\<close>

theorem setupWiFi_bounded_wait_witness:
  "clock (setupWiFi boot_world) = 10000 \<and>
   clock (setup_fn boot_world) = 10000 \<and>
   delays (trace (setup_fn boot_world)) = replicate 20 500 \<and>
   last (trace (setup_fn boot_world)) = SerialOut ''Setup complete!'' \<and>
   clock (setupWiFi late_wifi_world) = 1500 \<and>
   delays (trace (setup_fn late_wifi_world)) = [500, 500, 500] \<and>
   last (trace (setup_fn late_wifi_world)) = SerialOut ''Setup complete!''"
proof -
  from setupWiFi_bounded_wait [of boot_world] obtain n where
    le: "n \<le> 20"
    and stop: "n < 20 \<longrightarrow> wifi_status boot_world (wifi_polls boot_world + n) = WL_CONNECTED"
    and rest: "clock (setupWiFi boot_world) = clock boot_world + 500 * of_nat n"
      "clock (setup_fn boot_world) = clock boot_world + 500 * of_nat n"
      "delays (trace (setup_fn boot_world)) = delays (trace boot_world) @ replicate n 500"
      "last (trace (setup_fn boot_world)) = SerialOut ''Setup complete!''"
    by blast
  from stop have "\<not> n < 20" by (simp add: boot_world_def)
  with le have "n = 20" by simp
  with rest have never: "clock (setupWiFi boot_world) = 10000"
    "clock (setup_fn boot_world) = 10000"
    "delays (trace (setup_fn boot_world)) = replicate 20 500"
    "last (trace (setup_fn boot_world)) = SerialOut ''Setup complete!''"
    by (simp_all add: boot_world_def)
  from setupWiFi_bounded_wait [of late_wifi_world] obtain m where
    before: "\<forall>j<m. wifi_status late_wifi_world (wifi_polls late_wifi_world + j) \<noteq> WL_CONNECTED"
    and at_exit: "m < 20 \<longrightarrow>
                  wifi_status late_wifi_world (wifi_polls late_wifi_world + m) = WL_CONNECTED"
    and rest': "clock (setupWiFi late_wifi_world) = clock late_wifi_world + 500 * of_nat m"
      "delays (trace (setup_fn late_wifi_world)) =
         delays (trace late_wifi_world) @ replicate m 500"
      "last (trace (setup_fn late_wifi_world)) = SerialOut ''Setup complete!''"
    by blast
  have "\<not> 3 < m"
  proof
    assume "3 < m"
    with before have "wifi_status late_wifi_world (wifi_polls late_wifi_world + 3) \<noteq> WL_CONNECTED"
      by blast
    then show False by (simp add: late_wifi_world_def boot_world_def)
  qed
  moreover have "\<not> m < 3"
  proof
    assume "m < 3"
    with at_exit have "wifi_status late_wifi_world (wifi_polls late_wifi_world + m) = WL_CONNECTED"
      by simp
    with \<open>m < 3\<close> show False by (simp add: late_wifi_world_def boot_world_def)
  qed
  ultimately have "m = 3" by simp
  with rest' have late: "clock (setupWiFi late_wifi_world) = 1500"
    "delays (trace (setup_fn late_wifi_world)) = [500, 500, 500]"
    "last (trace (setup_fn late_wifi_world)) = SerialOut ''Setup complete!''"
    by (simp_all add: late_wifi_world_def boot_world_def numeral_3_eq_3)
  from never late show ?thesis by simp
qed

section \<open>Sampling and the sensor publish\<close>

lemma readSensors_closed:
  "readSensors w =
     sendDataToAPI (calib_voltage (adc w SOLAR_VOLTAGE_PIN) SOLAR_VOLTAGE_RATIO)
       (calib_current (adc w SOLAR_CURRENT_PIN))
       (calib_voltage (adc w BATTERY_VOLTAGE_PIN) BATTERY_VOLTAGE_RATIO)
       (digital_in w CHARGE_STATUS_PIN)
       (w\<lparr>trace := trace w @
          sensor_console (calib_voltage (adc w SOLAR_VOLTAGE_PIN) SOLAR_VOLTAGE_RATIO)
            (calib_current (adc w SOLAR_CURRENT_PIN))
            (calib_voltage (adc w BATTERY_VOLTAGE_PIN) BATTERY_VOLTAGE_RATIO)
            (digital_in w CHARGE_STATUS_PIN) w\<rparr>)"
  by (simp add: readSensors_def Let_def prim_defs calib_voltage_def calib_current_def
        sensor_console_def)

lemma sendDataToAPI_closed:
  "sendDataToAPI sv sc bv cs w =
     w\<lparr>wifi_polls := Suc (wifi_polls w),
       trace := trace w @
         (if WiFi_status w = WL_CONNECTED
          then [HttpBegin API_BASE_URL, HttpHeader ''Content-Type'' ''application/json'',
                HttpPost [(''solarVoltage'', JFloat sv), (''solarCurrent'', JFloat sc),
                          (''batteryVoltage'', JFloat bv), (''chargeStatus'', JInt cs),
                          (''timestamp'', JUInt (clock w))],
                SerialOut (if 0 < http_response w then ''Data sent to API successfully''
                           else ''Error sending data to API''),
                HttpEnd]
          else [])\<rparr>"
  by (simp add: sendDataToAPI_def prim_defs Let_def)

lemma publishSensorData_offline: "\<not> mqtt_connected w \<Longrightarrow> publishSensorData w = w"
  by (simp add: publishSensorData_def)

lemma publishSensorData_online:
  "mqtt_connected w \<Longrightarrow>
   publishSensorData w =
     w\<lparr>trace := trace w @
        [MqttPublish MQTT_TOPIC_SENSOR_DATA
           (sensor_doc (calib_voltage (adc w SOLAR_VOLTAGE_PIN) SOLAR_VOLTAGE_RATIO)
              (calib_current (adc w SOLAR_CURRENT_PIN))
              (calib_voltage (adc w BATTERY_VOLTAGE_PIN) BATTERY_VOLTAGE_RATIO)
              (digital_in w CHARGE_STATUS_PIN) w),
         SerialOut (if publish_ok w then ''Sensor data published to MQTT''
                    else ''Failed to publish sensor data to MQTT'')]\<rparr>"
  by (simp add: publishSensorData_def Let_def prim_defs calib_voltage_def calib_current_def
        sensor_doc_def)

lemma scenario_solar_voltage: "calib_voltage 2048 SOLAR_VOLTAGE_RATIO = 9518151 / 524288"
  by code_simp

lemma scenario_solar_current: "calib_current 1024 = 584653 / 131072"
  by code_simp

lemma scenario_battery_voltage: "calib_voltage 1800 BATTERY_VOLTAGE_RATIO = 16731125 / 1048576"
  by code_simp

lemma scenario_rounded:
  "round3 (9518151 / 524288) = 18154 / 1000"
  "round3 (584653 / 131072) = 4461 / 1000"
  "round3 (16731125 / 1048576) = 15956 / 1000"
  by code_simp+

text \<open>
  C4, as the code has it. With raw ADC inputs 2048 (solar voltage), 1024 (solar
  current) and 1800 (battery voltage), charge line 1, both relays off and the client
  connected, \<open>publishSensorData\<close> publishes one document on the sensor topic whose
  readings are the single-precision values 9518151 / 2^19, 584653 / 2^17 and
  16731125 / 2^20: rounded to three decimals 18.154, 4.461 and 15.956, with
  \<open>chargeStatus = 1\<close> and both relay fields false.
\<close>

theorem publishSensorData_happy_telemetry:
  "mqtt_connected w \<Longrightarrow>
   analogRead SOLAR_VOLTAGE_PIN w = 2048 \<Longrightarrow> analogRead SOLAR_CURRENT_PIN w = 1024 \<Longrightarrow>
   analogRead BATTERY_VOLTAGE_PIN w = 1800 \<Longrightarrow> digitalRead CHARGE_STATUS_PIN w = 1 \<Longrightarrow>
   \<not> relay1State w \<Longrightarrow> \<not> relay2State w \<Longrightarrow>
   mqtt_publishes (trace (publishSensorData w)) =
     mqtt_publishes (trace w) @
       [(MQTT_TOPIC_SENSOR_DATA,
         [(''solarVoltage'', JFloat (9518151 / 524288)),
          (''solarCurrent'', JFloat (584653 / 131072)),
          (''batteryVoltage'', JFloat (16731125 / 1048576)),
          (''chargeStatus'', JInt 1),
          (''relay1State'', JBool False),
          (''relay2State'', JBool False),
          (''timestamp'', JUInt (millis w))])] \<and>
   round3 (9518151 / 524288) = 18154 / 1000 \<and>
   round3 (584653 / 131072) = 4461 / 1000 \<and>
   round3 (16731125 / 1048576) = 15956 / 1000"
  by (simp add: publishSensorData_online mqtt_publishes_append prim_defs sensor_doc_def
        scenario_solar_voltage scenario_solar_current scenario_battery_voltage scenario_rounded)

text \<open>C4, witness: the scenario's device satisfies every hypothesis and publishes one
  document.\<close>

theorem publishSensorData_happy_telemetry_witness:
  "mqtt_connected telemetry_world \<and>
   analogRead SOLAR_VOLTAGE_PIN telemetry_world = 2048 \<and>
   analogRead SOLAR_CURRENT_PIN telemetry_world = 1024 \<and>
   analogRead BATTERY_VOLTAGE_PIN telemetry_world = 1800 \<and>
   digitalRead CHARGE_STATUS_PIN telemetry_world = 1 \<and>
   \<not> relay1State telemetry_world \<and> \<not> relay2State telemetry_world \<and>
   length (mqtt_publishes (trace (publishSensorData telemetry_world))) = 1 \<and>
   round3 (9518151 / 524288) = 18154 / 1000"
proof -
  have h: "mqtt_connected telemetry_world"
    "analogRead SOLAR_VOLTAGE_PIN telemetry_world = 2048"
    "analogRead SOLAR_CURRENT_PIN telemetry_world = 1024"
    "analogRead BATTERY_VOLTAGE_PIN telemetry_world = 1800"
    "digitalRead CHARGE_STATUS_PIN telemetry_world = 1"
    "\<not> relay1State telemetry_world" "\<not> relay2State telemetry_world"
    by (simp_all add: telemetry_world_def online_world_def boot_world_def pin_defs prim_defs)
  have t: "trace telemetry_world = []"
    by (simp add: telemetry_world_def online_world_def boot_world_def)
  from publishSensorData_happy_telemetry [OF h] h t show ?thesis
    by simp
qed

text \<open>C4, counterexample to the expected values 18.133, 4.468 and 15.933: the document
  published in the scenario holds readings that round to other values.\<close>

theorem happy_telemetry_values_differ:
  "mqtt_publishes (trace (publishSensorData telemetry_world)) =
     [(MQTT_TOPIC_SENSOR_DATA,
       [(''solarVoltage'', JFloat (9518151 / 524288)),
        (''solarCurrent'', JFloat (584653 / 131072)),
        (''batteryVoltage'', JFloat (16731125 / 1048576)),
        (''chargeStatus'', JInt 1),
        (''relay1State'', JBool False),
        (''relay2State'', JBool False),
        (''timestamp'', JUInt 0)])] \<and>
   round3 (9518151 / 524288) \<noteq> 18133 / 1000 \<and>
   round3 (584653 / 131072) \<noteq> 4468 / 1000 \<and>
   round3 (16731125 / 1048576) \<noteq> 15933 / 1000"
proof -
  have on: "mqtt_connected telemetry_world"
    by (simp add: telemetry_world_def online_world_def)
  have inputs: "adc telemetry_world SOLAR_VOLTAGE_PIN = 2048"
    "adc telemetry_world SOLAR_CURRENT_PIN = 1024"
    "adc telemetry_world BATTERY_VOLTAGE_PIN = 1800"
    "digital_in telemetry_world CHARGE_STATUS_PIN = 1"
    "relay1State telemetry_world = False" "relay2State telemetry_world = False"
    "clock telemetry_world = 0" "trace telemetry_world = []"
    by (simp_all add: telemetry_world_def online_world_def boot_world_def pin_defs)
  show ?thesis
    by (simp add: publishSensorData_online [OF on] inputs scenario_solar_voltage sensor_doc_def
          millis_def scenario_solar_current scenario_battery_voltage scenario_rounded)
qed

section \<open>The main loop during a broker outage\<close>

lemma readSensors_frame:
  "relay1State (readSensors w) = relay1State w"
  "relay2State (readSensors w) = relay2State w"
  "pin_level (readSensors w) = pin_level w"
  "mqtt_connected (readSensors w) = mqtt_connected w"
  "clock (readSensors w) = clock w"
  "lastMqttPublish (readSensors w) = lastMqttPublish w"
  "mqtt_publishes (trace (readSensors w)) = mqtt_publishes (trace w)"
  by (simp_all add: readSensors_closed sendDataToAPI_closed mqtt_publishes_append
        sensor_console_def prim_defs)

lemma readSensors_posts:
  "length (http_posts (trace (readSensors w))) =
     length (http_posts (trace w)) + (if WiFi_status w = WL_CONNECTED then 1 else 0)"
  by (simp add: readSensors_closed sendDataToAPI_closed http_posts_append
        sensor_console_def prim_defs)

text \<open>
  C7, as the code has it. \<open>publishSensorData\<close> on a disconnected client is the
  identity: nothing is published and no state changes. In an iteration of \<open>loop\<close> that
  has passed the reconnect step and finds the client disconnected after the servicing
  call, the publish tick therefore only advances \<open>lastMqttPublish\<close>, while the sample
  tick, when due, runs \<open>readSensors\<close> as usual: it publishes nothing on MQTT and makes
  its HTTP POST (one request when Wi-Fi is connected; \<open>sendDataToAPI\<close> skips it
  otherwise). An iteration that starts with a disconnected client and an unreachable
  broker never reaches the ticks: it does not return from \<open>reconnectMQTT\<close>.
\<close>

theorem loop_ticks_while_disconnected:
  "(\<not> mqtt_connected u \<longrightarrow> publishSensorData u = u) \<and>
   ((if \<not> mqtt_connected w then reconnectMQTT w else Some w) = Some w1 \<and>
    \<not> mqtt_connected (mqttClient_loop ev w1) \<longrightarrow>
    loop ev w =
      Some (let w2 = mqttClient_loop ev w1;
                s = (if SENSOR_READ_INTERVAL \<le> millis w2 - lastSensorRead w2
                     then (readSensors w2)\<lparr>lastSensorRead := millis w2\<rparr> else w2)
            in if 10000 \<le> millis s - lastMqttPublish s
               then s\<lparr>lastMqttPublish := millis s\<rparr> else s) \<and>
    mqtt_publishes (trace (readSensors (mqttClient_loop ev w1))) =
      mqtt_publishes (trace (mqttClient_loop ev w1)) \<and>
    length (http_posts (trace (readSensors (mqttClient_loop ev w1)))) =
      length (http_posts (trace (mqttClient_loop ev w1))) +
        (if WiFi_status (mqttClient_loop ev w1) = WL_CONNECTED then 1 else 0)) \<and>
   (\<not> mqtt_connected v \<and> (\<forall>k\<ge>connect_attempts v. \<not> connect_result v k) \<longrightarrow>
    loop ev v = None)"
proof (intro conjI impI)
  assume "\<not> mqtt_connected u"
  then show "publishSensorData u = u"
    by (rule publishSensorData_offline)
next
  assume "\<not> mqtt_connected v \<and> (\<forall>k\<ge>connect_attempts v. \<not> connect_result v k)"
  then show "loop ev v = None"
    by (simp add: loop_def reconnect_never_returns)
qed (simp_all add: loop_def loop_ticks_def Let_def publishSensorData_offline readSensors_frame
       readSensors_posts millis_def)

text \<open>C7, witness: ten seconds after boot, with Wi-Fi up, the session is lost in the
  servicing call; the iteration samples and posts once and publishes nothing. At
  power-on the client is disconnected: a publish is a no-op and an iteration does not
  return.\<close>

theorem loop_ticks_while_disconnected_witness:
  "(if \<not> mqtt_connected outage_world then reconnectMQTT outage_world else Some outage_world) =
      Some outage_world \<and>
   \<not> mqtt_connected (mqttClient_loop LinkLost outage_world) \<and>
   (\<exists>w'. loop LinkLost outage_world = Some w' \<and> mqtt_publishes (trace w') = [] \<and>
         length (http_posts (trace w')) = 1 \<and>
         lastSensorRead w' = 10000 \<and> lastMqttPublish w' = 10000) \<and>
   \<not> mqtt_connected boot_world \<and> publishSensorData boot_world = boot_world \<and>
   loop LinkLost boot_world = None"
proof -
  have off: "\<not> mqtt_connected boot_world"
    "\<forall>k\<ge>connect_attempts boot_world. \<not> connect_result boot_world k"
    by (simp_all add: boot_world_def)
  have h1: "(if \<not> mqtt_connected outage_world then reconnectMQTT outage_world
             else Some outage_world) = Some outage_world"
    by (simp add: outage_world_def online_world_def)
  have lost: "mqttClient_loop LinkLost outage_world = outage_world\<lparr>mqtt_connected := False\<rparr>"
    by (simp add: mqttClient_loop_def outage_world_def online_world_def)
  have h2: "\<not> mqtt_connected (mqttClient_loop LinkLost outage_world)"
    by (simp add: lost)
  note t = loop_ticks_while_disconnected
    [of boot_world outage_world outage_world LinkLost boot_world]
  from t off have idle: "publishSensorData boot_world = boot_world"
    "loop LinkLost boot_world = None"
    by blast+
  from t h1 h2 have run: "loop LinkLost outage_world =
      Some (let w2 = mqttClient_loop LinkLost outage_world;
                s = (if SENSOR_READ_INTERVAL \<le> millis w2 - lastSensorRead w2
                     then (readSensors w2)\<lparr>lastSensorRead := millis w2\<rparr> else w2)
            in if 10000 \<le> millis s - lastMqttPublish s
               then s\<lparr>lastMqttPublish := millis s\<rparr> else s)"
    by blast
  have "\<exists>w'. loop LinkLost outage_world = Some w' \<and> mqtt_publishes (trace w') = [] \<and>
         length (http_posts (trace w')) = 1 \<and>
         lastSensorRead w' = 10000 \<and> lastMqttPublish w' = 10000"
    unfolding run
    by (simp add: lost Let_def readSensors_frame readSensors_posts SENSOR_READ_INTERVAL_def
          millis_def)
       (simp add: outage_world_def online_world_def boot_world_def prim_defs)
  with h1 h2 off idle show ?thesis by blast
qed

text \<open>C7, counterexample to "the sample tick still runs": ten seconds after boot, with
  the client disconnected, the broker unreachable and both ticks due, the iteration of
  \<open>loop\<close> does not return, so neither \<open>readSensors\<close> nor the POST happens.\<close>

theorem loop_blocked_before_ticks:
  "\<not> mqtt_connected blocked_world \<and>
   WiFi_status blocked_world = WL_CONNECTED \<and>
   SENSOR_READ_INTERVAL \<le> millis blocked_world - lastSensorRead blocked_world \<and>
   10000 \<le> millis blocked_world - lastMqttPublish blocked_world \<and>
   loop Idle blocked_world = None"
proof -
  have "reconnectMQTT blocked_world = None"
    by (rule reconnect_never_returns) (simp_all add: blocked_world_def boot_world_def)
  then show ?thesis
    by (simp add: loop_def blocked_world_def boot_world_def prim_defs SENSOR_READ_INTERVAL_def)
qed

section \<open>Rounding error of the calibration\<close>

subsection \<open>Rounding to \<open>p\<close> significant bits\<close>

lemma two_powi_pos: "0 < (2::rat) powi k"
  by (simp add: zero_less_power_int)

lemma two_powi_add: "(2::rat) powi (a + b) = 2 powi a * 2 powi b"
  by (simp add: power_int_add)

lemma two_powi_mono: "a \<le> b \<Longrightarrow> (2::rat) powi a \<le> 2 powi b"
  by (simp add: power_int_increasing)

lemma two_powi_less_imp: "(2::rat) powi a < 2 powi b \<Longrightarrow> a < b"
  by (metis linorder_not_less two_powi_mono)

lemma two_powi_Suc: "(2::rat) powi (k + 1) = 2 * 2 powi k"
  by (simp add: power_int_add)

lemma two_powi_nat: "0 \<le> k \<Longrightarrow> (2::rat) powi k = 2 ^ nat k"
  by (simp add: power_int_def)

lemma round_even_cases: "round_even m = \<lfloor>m\<rfloor> \<or> round_even m = \<lfloor>m\<rfloor> + 1"
  by (simp add: round_even_def Let_def)

lemma round_even_nearest: "\<bar>of_int (round_even m) - m\<bar> \<le> \<bar>of_int j - m\<bar>"
proof -
  let ?f = "\<lfloor>m\<rfloor>"
  have fl: "of_int ?f \<le> m" "m < of_int ?f + 1" by linarith+
  consider "j \<le> ?f" | "?f + 1 \<le> j" by linarith
  then show ?thesis
  proof cases
    case 1
    then have "(of_int j :: rat) \<le> of_int ?f" by simp
    with fl show ?thesis
      by (auto simp add: round_even_def Let_def)
  next
    case 2
    then have "(of_int ?f :: rat) + 1 \<le> of_int j"
      by (metis of_int_1 of_int_add of_int_le_iff)
    with fl show ?thesis
      by (auto simp add: round_even_def Let_def)
  qed
qed

lemma round_even_half: "\<bar>of_int (round_even m) - m\<bar> \<le> 1 / 2"
proof -
  have fl: "of_int \<lfloor>m\<rfloor> \<le> m" "m < of_int \<lfloor>m\<rfloor> + 1" by linarith+
  then show ?thesis
    by (auto simp add: round_even_def Let_def)
qed

lemma ilog2_bounds:
  assumes "x \<noteq> 0"
  shows "2 powi (ilog2 x) \<le> \<bar>x\<bar>" and "\<bar>x\<bar> < 2 powi (ilog2 x + 1)"
proof -
  obtain n d where q: "quotient_of \<bar>x\<bar> = (n, d)" by (cases "quotient_of \<bar>x\<bar>")
  then have d: "0 < d" and x: "\<bar>x\<bar> = of_int n / of_int d"
    by (simp_all add: quotient_of_denom_pos quotient_of_div)
  from assms have "0 < \<bar>x\<bar>" by simp
  with x d have n: "0 < n"
    by (simp add: zero_less_divide_iff)
  let ?a = "bitlen n" and ?b = "bitlen d"
  from bitlen_bounds [OF n] have nb: "2 ^ nat (?a - 1) \<le> n" "n < 2 ^ nat ?a" by simp_all
  from bitlen_bounds [OF d] have db: "2 ^ nat (?b - 1) \<le> d" "d < 2 ^ nat ?b" by simp_all
  have a1: "1 \<le> ?a" using n by (simp add: bitlen_alt_def)
  have b1: "1 \<le> ?b" using d by (simp add: bitlen_alt_def)
  have nr: "(2::rat) powi (?a - 1) \<le> of_int n" "(of_int n :: rat) < 2 powi ?a"
  proof -
    from nb(1) have "(of_int (2 ^ nat (?a - 1)) :: rat) \<le> of_int n"
      by (simp only: of_int_le_iff)
    then show "(2::rat) powi (?a - 1) \<le> of_int n"
      using a1 by (simp add: two_powi_nat)
    from nb(2) have "(of_int n :: rat) < of_int (2 ^ nat ?a)"
      by (simp only: of_int_less_iff)
    then show "(of_int n :: rat) < 2 powi ?a"
      using a1 by (simp add: two_powi_nat)
  qed
  have dr: "(2::rat) powi (?b - 1) \<le> of_int d" "(of_int d :: rat) < 2 powi ?b"
  proof -
    from db(1) have "(of_int (2 ^ nat (?b - 1)) :: rat) \<le> of_int d"
      by (simp only: of_int_le_iff)
    then show "(2::rat) powi (?b - 1) \<le> of_int d"
      using b1 by (simp add: two_powi_nat)
    from db(2) have "(of_int d :: rat) < of_int (2 ^ nat ?b)"
      by (simp only: of_int_less_iff)
    then show "(of_int d :: rat) < 2 powi ?b"
      using b1 by (simp add: two_powi_nat)
  qed
  have dpos: "(0::rat) < of_int d" using d by simp
  have npos: "(0::rat) < of_int n" using n by simp
  have low: "(2::rat) powi (?a - ?b - 1) \<le> \<bar>x\<bar>"
  proof -
    have "(2::rat) powi (?a - ?b - 1) * of_int d \<le> 2 powi (?a - ?b - 1) * 2 powi ?b"
      using dr(2) two_powi_pos [of "?a - ?b - 1"] by (simp add: less_imp_le)
    also have "\<dots> = 2 powi ((?a - ?b - 1) + ?b)"
      by (simp only: two_powi_add)
    also have "\<dots> = 2 powi (?a - 1)"
      by simp
    also have "\<dots> \<le> of_int n" by (rule nr(1))
    finally show ?thesis
      using dpos by (simp add: x pos_le_divide_eq)
  qed
  have high: "\<bar>x\<bar> < (2::rat) powi (?a - ?b + 1)"
  proof -
    have "(of_int n :: rat) < 2 powi ?a" by (rule nr(2))
    also have "\<dots> = 2 powi ((?a - ?b + 1) + (?b - 1))"
      by simp
    also have "\<dots> = 2 powi (?a - ?b + 1) * 2 powi (?b - 1)"
      by (simp only: two_powi_add)
    also have "\<dots> \<le> 2 powi (?a - ?b + 1) * of_int d"
      using dr(1) two_powi_pos [of "?a - ?b + 1"] by simp
    finally show ?thesis
      using dpos by (simp add: x pos_divide_less_eq)
  qed
  have il: "ilog2 x = (if 2 powi (?a - ?b) \<le> \<bar>x\<bar> then ?a - ?b else ?a - ?b - 1)"
    by (simp add: ilog2_def q Let_def)
  show "2 powi (ilog2 x) \<le> \<bar>x\<bar>"
    using low by (simp add: il)
  show "\<bar>x\<bar> < 2 powi (ilog2 x + 1)"
    using high by (simp add: il not_le)
qed

lemma ilog2_le: "x \<noteq> 0 \<Longrightarrow> \<bar>x\<bar> < 2 powi (k + 1) \<Longrightarrow> ilog2 x \<le> k"
  using ilog2_bounds(1) [of x] two_powi_less_imp [of "ilog2 x" "k + 1"] by simp

lemma ilog2_ge: "x \<noteq> 0 \<Longrightarrow> 2 powi k \<le> \<bar>x\<bar> \<Longrightarrow> k \<le> ilog2 x"
  using ilog2_bounds(2) [of x] two_powi_less_imp [of k "ilog2 x + 1"] by simp

lemma fp_round_nearest:
  assumes "x \<noteq> 0"
  shows "\<bar>fp_round p x - x\<bar> \<le> \<bar>of_int j * 2 powi (ilog2 x - (int p - 1)) - x\<bar>"
proof -
  let ?s = "(2::rat) powi (ilog2 x - (int p - 1))"
  have s: "0 < ?s" by (rule two_powi_pos)
  have "fp_round p x - x = (of_int (round_even (x / ?s)) - x / ?s) * ?s"
    using assms s by (simp add: fp_round_def Let_def field_simps)
  then have "\<bar>fp_round p x - x\<bar> = \<bar>of_int (round_even (x / ?s)) - x / ?s\<bar> * ?s"
    using s by (simp add: abs_mult)
  also have "\<dots> \<le> \<bar>of_int j - x / ?s\<bar> * ?s"
    using s round_even_nearest [of "x / ?s" j] by (simp add: mult_right_mono)
  also have "\<dots> = \<bar>(of_int j - x / ?s) * ?s\<bar>"
    using s by (simp add: abs_mult)
  also have "(of_int j - x / ?s) * ?s = of_int j * ?s - x"
    using s by (simp add: field_simps)
  finally show ?thesis .
qed

lemma fp_round_half_ulp:
  assumes "x \<noteq> 0"
  shows "\<bar>fp_round p x - x\<bar> \<le> 2 powi (ilog2 x - int p)"
proof -
  let ?s = "(2::rat) powi (ilog2 x - (int p - 1))"
  have s: "0 < ?s" by (rule two_powi_pos)
  have "fp_round p x - x = (of_int (round_even (x / ?s)) - x / ?s) * ?s"
    using assms s by (simp add: fp_round_def Let_def field_simps)
  then have "\<bar>fp_round p x - x\<bar> = \<bar>of_int (round_even (x / ?s)) - x / ?s\<bar> * ?s"
    using s by (simp add: abs_mult)
  also have "\<dots> \<le> (1 / 2) * ?s"
    using s round_even_half [of "x / ?s"] by (simp add: mult_right_mono)
  also have "?s = 2 powi ((ilog2 x - int p) + 1)"
    by (simp add: algebra_simps)
  also have "\<dots> = 2 * 2 powi (ilog2 x - int p)"
    by (rule two_powi_Suc)
  finally show ?thesis by simp
qed

lemma fp_round_relative: "\<bar>fp_round p x - x\<bar> \<le> \<bar>x\<bar> / 2 ^ p"
proof (cases "x = 0")
  case True
  then show ?thesis by (simp add: fp_round_def)
next
  case False
  have "\<bar>fp_round p x - x\<bar> \<le> 2 powi (ilog2 x - int p)"
    using False by (rule fp_round_half_ulp)
  also have "\<dots> = 2 powi (ilog2 x) / 2 ^ p"
    by (simp add: power_int_diff)
  also have "\<dots> \<le> \<bar>x\<bar> / 2 ^ p"
    using ilog2_bounds(1) [OF False] by (simp add: divide_right_mono)
  finally show ?thesis .
qed

lemma two_powi_div: "(2::rat) powi k / 2 ^ n = 2 powi (k - int n)"
  by (simp add: power_int_diff)

lemma to_float_within_ulp:
  assumes x: "0 < x" and y: "\<bar>y - x\<bar> \<le> x / 2 ^ 26"
  shows "\<bar>to_float y - x\<bar> \<le> ulp_single x"
proof -
  let ?e = "ilog2 x"
  from x have x0: "x \<noteq> 0" by simp
  from ilog2_bounds [OF x0] x have lo: "2 powi ?e \<le> x" and hi: "x < 2 powi (?e + 1)"
    by simp_all
  have small: "x / 2 ^ 26 \<le> 2 powi (?e - 25)"
  proof -
    have "x / 2 ^ 26 \<le> 2 powi (?e + 1) / 2 ^ 26"
      using hi by (simp add: divide_right_mono)
    also have "\<dots> = 2 powi (?e + 1 - int 26)"
      by (rule two_powi_div)
    also have "?e + 1 - int 26 = ?e - 25" by simp
    finally show ?thesis .
  qed
  have p24: "(2::rat) powi (?e - 23) = 2 * 2 powi (?e - 24)"
    using two_powi_Suc [of "?e - 24"] by simp
  have p25: "(2::rat) powi (?e - 24) = 2 * 2 powi (?e - 25)"
    using two_powi_Suc [of "?e - 25"] by simp
  have pos25: "0 < (2::rat) powi (?e - 25)" by (rule two_powi_pos)
  have "x / 2 ^ 26 < x" using x by simp
  with y have ypos: "0 < y" by linarith
  then have y0: "y \<noteq> 0" by simp
  have "y \<le> x + x / 2 ^ 26" using y by linarith
  also have "\<dots> < 2 powi (?e + 1) + 2 powi (?e + 1)"
    using hi \<open>x / 2 ^ 26 < x\<close> by linarith
  also have "\<dots> = 2 powi (?e + 1 + 1)"
    by (simp only: two_powi_Suc)
  finally have yhi: "\<bar>y\<bar> < 2 powi (?e + 1 + 1)" using ypos by simp
  show ?thesis
  proof (cases "y < 2 powi (?e + 1)")
    case True
    with ypos have "ilog2 y \<le> ?e"
      by (intro ilog2_le y0) simp
    then have "(2::rat) powi (ilog2 y - 24) \<le> 2 powi (?e - 24)"
      by (intro two_powi_mono) simp
    moreover have "\<bar>to_float y - y\<bar> \<le> 2 powi (ilog2 y - 24)"
      using fp_round_half_ulp [OF y0, of 24] by (simp add: to_float_def)
    ultimately have "\<bar>to_float y - y\<bar> \<le> 2 powi (?e - 24)" by linarith
    with y small have "\<bar>to_float y - x\<bar> \<le> 2 powi (?e - 24) + 2 powi (?e - 25)"
      by linarith
    also have "\<dots> \<le> 2 powi (?e - 23)"
      using pos25 by (simp add: p24 p25)
    finally show ?thesis using x0 by (simp add: ulp_single_def)
  next
    case False
    then have ge: "2 powi (?e + 1) \<le> y" by simp
    with ypos have "?e + 1 \<le> ilog2 y"
      by (intro ilog2_ge y0) simp
    moreover have "ilog2 y \<le> ?e + 1"
      using yhi by (intro ilog2_le y0)
    ultimately have ly: "ilog2 y = ?e + 1" by simp
    have "\<bar>to_float y - y\<bar> \<le> \<bar>of_int (2 ^ 23) * 2 powi (ilog2 y - (int 24 - 1)) - y\<bar>"
      unfolding to_float_def using y0 by (rule fp_round_nearest)
    also have "of_int (2 ^ 23) * 2 powi (ilog2 y - (int 24 - 1)) = (2::rat) powi (?e + 1)"
    proof -
      have ex: "?e + 1 = (?e + 1 - 23) + 23" by simp
      have "(2::rat) powi (?e + 1) = 2 powi ((?e + 1 - 23) + 23)"
        by (rule arg_cong [where f = "\<lambda>k. 2 powi k", OF ex])
      also have "\<dots> = 2 powi (?e + 1 - 23) * 2 powi 23"
        by (simp only: two_powi_add)
      also have "(2::rat) powi 23 = of_int (2 ^ 23)"
        by (simp add: two_powi_nat)
      also have "?e + 1 - 23 = ilog2 y - (int 24 - 1)"
        by (simp add: ly)
      finally show ?thesis by (simp only: mult.commute)
    qed
    finally have "\<bar>to_float y - y\<bar> \<le> y - 2 powi (?e + 1)"
      using ge by simp
    with hi have "\<bar>to_float y - y\<bar> \<le> y - x" by linarith
    with y small have "\<bar>to_float y - x\<bar> \<le> 2 powi (?e - 25) + 2 powi (?e - 25)"
      by linarith
    also have "\<dots> \<le> 2 powi (?e - 23)"
      using pos25 by (simp add: p24 p25)
    finally show ?thesis using x0 by (simp add: ulp_single_def)
  qed
qed

subsection \<open>Relative error through the double-precision operations\<close>

lemma close_to_weaken: "close_to \<delta> a b \<Longrightarrow> \<delta> \<le> \<delta>' \<Longrightarrow> close_to \<delta>' a b"
  unfolding close_to_def
  by (meson abs_ge_zero mult_right_mono order_trans)

lemma close_to_times: "close_to \<delta> a b \<Longrightarrow> close_to \<delta> (a * k) (b * k)"
proof -
  assume "close_to \<delta> a b"
  then have "\<bar>a - b\<bar> * \<bar>k\<bar> \<le> \<delta> * \<bar>b\<bar> * \<bar>k\<bar>"
    unfolding close_to_def by (simp add: mult_right_mono)
  then show ?thesis
    unfolding close_to_def by (simp add: abs_mult left_diff_distrib flip: abs_mult) (simp add: abs_mult algebra_simps)
qed

lemma close_to_divide: "close_to \<delta> a b \<Longrightarrow> close_to \<delta> (a / k) (b / k)"
  using close_to_times [of \<delta> a b "1 / k"] by simp

lemma close_to_bound: "close_to \<delta> a b \<Longrightarrow> \<bar>a\<bar> \<le> (1 + \<delta>) * \<bar>b\<bar>"
proof -
  assume "close_to \<delta> a b"
  then have "\<bar>a - b\<bar> \<le> \<delta> * \<bar>b\<bar>" by (simp add: close_to_def)
  moreover have "\<bar>a\<bar> \<le> \<bar>b\<bar> + \<bar>a - b\<bar>" by simp
  ultimately show ?thesis by (simp add: algebra_simps)
qed

lemma close_to_trans:
  assumes pq: "close_to \<delta>1 p q" and qr: "close_to \<delta>2 q r" and d: "0 \<le> \<delta>1"
  shows "close_to (\<delta>1 + \<delta>2 + \<delta>1 * \<delta>2) p r"
proof -
  have "\<bar>p - r\<bar> \<le> \<bar>p - q\<bar> + \<bar>q - r\<bar>" by simp
  also have "\<bar>p - q\<bar> \<le> \<delta>1 * \<bar>q\<bar>" using pq by (simp add: close_to_def)
  also have "\<delta>1 * \<bar>q\<bar> \<le> \<delta>1 * ((1 + \<delta>2) * \<bar>r\<bar>)"
    using close_to_bound [OF qr] d by (rule mult_left_mono)
  also have "\<bar>q - r\<bar> \<le> \<delta>2 * \<bar>r\<bar>" using qr by (simp add: close_to_def)
  finally have "\<bar>p - r\<bar> \<le> \<delta>1 * ((1 + \<delta>2) * \<bar>r\<bar>) + \<delta>2 * \<bar>r\<bar>" by simp
  then show ?thesis by (simp add: close_to_def algebra_simps)
qed

lemma to_double_close: "close_to (1 / 2 ^ 53) (to_double a) a"
  using fp_round_relative [of 53 a] by (simp add: close_to_def to_double_def)

lemma close_to_round:
  "close_to \<delta> a b \<Longrightarrow> close_to (1 / 2 ^ 53 + \<delta> + 1 / 2 ^ 53 * \<delta>) (to_double a) b"
  by (rule close_to_trans [OF to_double_close]) simp_all

lemma close_to_divisor:
  assumes c: "close_to \<delta> c c0" and d: "0 \<le> \<delta>" "\<delta> < 1" and c0: "c0 \<noteq> 0"
  shows "close_to (\<delta> / (1 - \<delta>)) (a / c) (a / c0)"
proof -
  from c have dist: "\<bar>c - c0\<bar> \<le> \<delta> * \<bar>c0\<bar>" by (simp add: close_to_def)
  have "\<bar>c0\<bar> \<le> \<bar>c\<bar> + \<bar>c - c0\<bar>" by simp
  with dist have lower: "(1 - \<delta>) * \<bar>c0\<bar> \<le> \<bar>c\<bar>" by (simp add: algebra_simps)
  from c0 d have pos: "0 < (1 - \<delta>) * \<bar>c0\<bar>" by simp
  with lower have cpos: "0 < \<bar>c\<bar>" by linarith
  then have cn: "c \<noteq> 0" by simp
  have "a / c - a / c0 = a * (c0 - c) / (c * c0)"
    using cn c0 by (simp add: field_simps)
  then have "\<bar>a / c - a / c0\<bar> = \<bar>a\<bar> * \<bar>c - c0\<bar> / (\<bar>c\<bar> * \<bar>c0\<bar>)"
    by (simp add: abs_mult abs_minus_commute)
  also have "\<dots> \<le> \<bar>a\<bar> * (\<delta> * \<bar>c0\<bar>) / (\<bar>c\<bar> * \<bar>c0\<bar>)"
    using dist cpos c0 by (intro divide_right_mono mult_left_mono) simp_all
  also have "\<dots> = \<delta> * \<bar>a\<bar> / \<bar>c\<bar>"
    using c0 by simp
  also have "\<dots> \<le> \<delta> * \<bar>a\<bar> / ((1 - \<delta>) * \<bar>c0\<bar>)"
    using lower pos d c0 by (intro divide_left_mono mult_nonneg_nonneg mult_pos_pos cpos) simp_all
  also have "\<dots> = \<delta> / (1 - \<delta>) * \<bar>a / c0\<bar>"
    by simp
  finally show ?thesis by (simp add: close_to_def)
qed

subsection \<open>The conversions of the firmware\<close>

lemma double_literals:
  "lit_3_3 = 3715469692580659 / 1125899906842624"
  "CURRENT_SENSOR_RATIO = 3332663724254167 / 18014398509481984"
  "to_double 4095 = lit_4095" "to_double 11 = SOLAR_VOLTAGE_RATIO"
  by code_simp+

lemma lit_3_3_close: "close_to (1 / 2 ^ 53) lit_3_3 (33 / 10)"
  unfolding lit_3_3_def by (rule to_double_close)

lemma CURRENT_SENSOR_RATIO_close: "close_to (1 / 2 ^ 53) CURRENT_SENSOR_RATIO (185 / 1000)"
  unfolding CURRENT_SENSOR_RATIO_def by (rule to_double_close)

lemma adc_volts_close:
  "close_to (5 / 2 ^ 53)
     (double_div (double_mul (of_int r) lit_3_3) lit_4095) (of_int r * (33 / 10) / 4095)"
proof -
  have "close_to (1 / 2 ^ 53) (of_int r * lit_3_3) (of_int r * (33 / 10))"
    using close_to_times [OF lit_3_3_close, of "of_int r"] by (simp add: mult.commute)
  then have "close_to (1 / 2 ^ 53 + 1 / 2 ^ 53 + 1 / 2 ^ 53 * (1 / 2 ^ 53))
               (double_mul (of_int r) lit_3_3) (of_int r * (33 / 10))"
    unfolding double_mul_def by (rule close_to_round)
  then have "close_to (3 / 2 ^ 53) (double_mul (of_int r) lit_3_3) (of_int r * (33 / 10))"
    by (rule close_to_weaken) simp
  then have "close_to (3 / 2 ^ 53) (double_mul (of_int r) lit_3_3 / lit_4095)
               (of_int r * (33 / 10) / 4095)"
    unfolding lit_4095_def by (rule close_to_divide)
  then have "close_to (1 / 2 ^ 53 + 3 / 2 ^ 53 + 1 / 2 ^ 53 * (3 / 2 ^ 53))
               (double_div (double_mul (of_int r) lit_3_3) lit_4095)
               (of_int r * (33 / 10) / 4095)"
    unfolding double_div_def by (rule close_to_round)
  then show ?thesis
    by (rule close_to_weaken) simp
qed

lemma voltage_double_close:
  "close_to (7 / 2 ^ 53)
     (double_mul (double_div (double_mul (of_int r) lit_3_3) lit_4095) 11)
     (of_int r * (33 / 10) / 4095 * 11)"
proof -
  have "close_to (5 / 2 ^ 53)
          (double_div (double_mul (of_int r) lit_3_3) lit_4095 * 11)
          (of_int r * (33 / 10) / 4095 * 11)"
    using adc_volts_close by (rule close_to_times)
  then have "close_to (1 / 2 ^ 53 + 5 / 2 ^ 53 + 1 / 2 ^ 53 * (5 / 2 ^ 53))
          (double_mul (double_div (double_mul (of_int r) lit_3_3) lit_4095) 11)
          (of_int r * (33 / 10) / 4095 * 11)"
    unfolding double_mul_def by (rule close_to_round)
  then show ?thesis
    by (rule close_to_weaken) simp
qed

lemma current_double_close:
  "close_to (10 / 2 ^ 53)
     (double_div (double_div (double_mul (of_int r) lit_3_3) lit_4095) CURRENT_SENSOR_RATIO)
     (of_int r * (33 / 10) / 4095 / (185 / 1000))"
proof -
  let ?t = "double_div (double_mul (of_int r) lit_3_3) lit_4095"
  let ?x = "of_int r * (33 / 10) / 4095 :: rat"
  have 1: "close_to (5 / 2 ^ 53) (?t / CURRENT_SENSOR_RATIO) (?x / CURRENT_SENSOR_RATIO)"
    using adc_volts_close by (rule close_to_divide)
  have "close_to ((1 / 2 ^ 53) / (1 - 1 / 2 ^ 53)) (?x / CURRENT_SENSOR_RATIO) (?x / (185 / 1000))"
    using CURRENT_SENSOR_RATIO_close by (rule close_to_divisor) simp_all
  then have 2: "close_to (2 / 2 ^ 53) (?x / CURRENT_SENSOR_RATIO) (?x / (185 / 1000))"
    by (rule close_to_weaken) simp
  have "close_to (5 / 2 ^ 53 + 2 / 2 ^ 53 + 5 / 2 ^ 53 * (2 / 2 ^ 53))
          (?t / CURRENT_SENSOR_RATIO) (?x / (185 / 1000))"
    using 1 2 by (rule close_to_trans) simp
  then have "close_to (8 / 2 ^ 53) (?t / CURRENT_SENSOR_RATIO) (?x / (185 / 1000))"
    by (rule close_to_weaken) simp
  then have "close_to (1 / 2 ^ 53 + 8 / 2 ^ 53 + 1 / 2 ^ 53 * (8 / 2 ^ 53))
          (double_div ?t CURRENT_SENSOR_RATIO) (?x / (185 / 1000))"
    unfolding double_div_def by (rule close_to_round)
  then show ?thesis
    by (rule close_to_weaken) simp
qed

lemma calib_zero: "calib_voltage 0 ratio = 0" "calib_current 0 = 0"
  by (simp_all add: calib_voltage_def calib_current_def double_mul_def double_div_def
        to_double_def to_float_def fp_round_def)

lemma calib_voltage_ulp:
  assumes "0 \<le> r"
  shows "\<bar>calib_voltage r 11 - of_int r * (33 / 10) / 4095 * 11\<bar>
           \<le> ulp_single (of_int r * (33 / 10) / 4095 * 11)"
proof (cases "r = 0")
  case True
  then show ?thesis by (simp add: calib_zero ulp_single_def)
next
  case False
  with assms have "0 < r" by simp
  then have x: "(0::rat) < of_int r * (33 / 10) / 4095 * 11" by simp
  have "close_to (1 / 2 ^ 26)
     (double_mul (double_div (double_mul (of_int r) lit_3_3) lit_4095) 11)
     (of_int r * (33 / 10) / 4095 * 11)"
    using voltage_double_close by (rule close_to_weaken) simp
  with x have "\<bar>double_mul (double_div (double_mul (of_int r) lit_3_3) lit_4095) 11 -
                of_int r * (33 / 10) / 4095 * 11\<bar> \<le> (of_int r * (33 / 10) / 4095 * 11) / 2 ^ 26"
    by (simp add: close_to_def)
  from to_float_within_ulp [OF x this] show ?thesis
    by (simp add: calib_voltage_def)
qed

lemma calib_current_ulp:
  assumes "0 \<le> r"
  shows "\<bar>calib_current r - of_int r * (33 / 10) / 4095 / (185 / 1000)\<bar>
           \<le> ulp_single (of_int r * (33 / 10) / 4095 / (185 / 1000))"
proof (cases "r = 0")
  case True
  then show ?thesis by (simp add: calib_zero ulp_single_def)
next
  case False
  with assms have "0 < r" by simp
  then have x: "(0::rat) < of_int r * (33 / 10) / 4095 / (185 / 1000)" by simp
  have "close_to (1 / 2 ^ 26)
     (double_div (double_div (double_mul (of_int r) lit_3_3) lit_4095) CURRENT_SENSOR_RATIO)
     (of_int r * (33 / 10) / 4095 / (185 / 1000))"
    using current_double_close by (rule close_to_weaken) simp
  with x have "\<bar>double_div (double_div (double_mul (of_int r) lit_3_3) lit_4095)
                  CURRENT_SENSOR_RATIO -
                of_int r * (33 / 10) / 4095 / (185 / 1000)\<bar>
               \<le> (of_int r * (33 / 10) / 4095 / (185 / 1000)) / 2 ^ 26"
    by (simp add: close_to_def)
  from to_float_within_ulp [OF x this] show ?thesis
    by (simp add: calib_current_def)
qed

text \<open>For readings between 1 and 4095 the results are normal single-precision numbers,
  far from underflow and overflow.\<close>

lemma ulp_single_le: "0 < x \<Longrightarrow> ulp_single x \<le> x / 2 ^ 23"
proof -
  assume x: "0 < x"
  then have "ulp_single x = 2 powi (ilog2 x - int 23)"
    by (simp add: ulp_single_def)
  also have "\<dots> = 2 powi (ilog2 x) / 2 ^ 23"
    by (rule two_powi_div [symmetric])
  also have "\<dots> \<le> x / 2 ^ 23"
    using ilog2_bounds(1) [of x] x by (simp add: divide_right_mono)
  finally show ?thesis .
qed

lemma voltage_law_range:
  "(1::rat) \<le> q \<Longrightarrow> q \<le> 4095 \<Longrightarrow>
   363 / 40950 \<le> q * (33 / 10) / 4095 * 11 \<and> q * (33 / 10) / 4095 * 11 \<le> 363 / 10"
  by simp

lemma current_law_range:
  "(1::rat) \<le> q \<Longrightarrow> q \<le> 4095 \<Longrightarrow>
   3300 / 757575 \<le> q * (33 / 10) / 4095 / (185 / 1000) \<and>
   q * (33 / 10) / 4095 / (185 / 1000) \<le> 3300 / 185"
  by simp

lemma range_of_close:
  fixes z :: rat
  assumes "\<bar>z - x\<bar> \<le> ulp_single x" and "0 < lo" and "lo \<le> x" and "x \<le> hi"
  shows "lo * 15 / 16 \<le> z \<and> z \<le> hi * 17 / 16"
proof -
  from assms have xp: "0 < x" by linarith
  have "x / 2 ^ 23 \<le> x / 16"
    using xp by (intro divide_left_mono) simp_all
  with assms(1) ulp_single_le [OF xp] have "\<bar>z - x\<bar> \<le> x / 16" by linarith
  with assms(3,4) show ?thesis
    by (simp only: abs_le_iff) linarith
qed

lemma readings_in_normal_range:
  assumes r: "1 \<le> r" "r \<le> 4095"
  shows "1 / 2 ^ 7 \<le> calib_voltage r 11 \<and> calib_voltage r 11 \<le> 2 ^ 6"
    and "1 / 2 ^ 8 \<le> calib_current r \<and> calib_current r \<le> 2 ^ 5"
proof -
  from r have q: "(1::rat) \<le> of_int r" "(of_int r :: rat) \<le> 4095" by simp_all
  from r have r0: "0 \<le> r" by simp
  have "363 / 40950 * 15 / 16 \<le> calib_voltage r 11 \<and>
        calib_voltage r 11 \<le> 363 / 10 * 17 / 16"
    by (rule range_of_close [OF calib_voltage_ulp [OF r0] _
          conjunct1 [OF voltage_law_range [OF q]] conjunct2 [OF voltage_law_range [OF q]]]) simp
  then show "1 / 2 ^ 7 \<le> calib_voltage r 11 \<and> calib_voltage r 11 \<le> 2 ^ 6"
    by simp
  have "3300 / 757575 * 15 / 16 \<le> calib_current r \<and>
        calib_current r \<le> 3300 / 185 * 17 / 16"
    by (rule range_of_close [OF calib_current_ulp [OF r0] _
          conjunct1 [OF current_law_range [OF q]] conjunct2 [OF current_law_range [OF q]]]) simp
  then show "1 / 2 ^ 8 \<le> calib_current r \<and> calib_current r \<le> 2 ^ 5"
    by simp
qed

lemma ulp_scenario: "ulp_single (2048 * (33 / 10) / 4095 * 11) = 1 / 524288"
  by code_simp

text \<open>
  C3. For raw ADC readings in \<open>[0, 4095]\<close> the three readings computed by
  \<open>readSensors\<close> (printed and handed to \<open>sendDataToAPI\<close>) and by
  \<open>publishSensorData\<close> (put into the sensor document) are the same three
  single-precision numbers, and each lies within one unit in the last place of single
  precision of the exact value of the calibration law: \<open>r * 3.3 / 4095 * 11\<close> for the
  two voltages and \<open>r * 3.3 / 4095 / 0.185\<close> for the current.
\<close>

theorem calibration_within_one_ulp:
  "0 \<le> analogRead SOLAR_VOLTAGE_PIN w \<and> analogRead SOLAR_VOLTAGE_PIN w \<le> 4095 \<Longrightarrow>
   0 \<le> analogRead SOLAR_CURRENT_PIN w \<and> analogRead SOLAR_CURRENT_PIN w \<le> 4095 \<Longrightarrow>
   0 \<le> analogRead BATTERY_VOLTAGE_PIN w \<and> analogRead BATTERY_VOLTAGE_PIN w \<le> 4095 \<Longrightarrow>
   \<exists>sv sc bv.
     readSensors w =
       sendDataToAPI sv sc bv (digitalRead CHARGE_STATUS_PIN w)
         (w\<lparr>trace := trace w @ sensor_console sv sc bv (digitalRead CHARGE_STATUS_PIN w) w\<rparr>) \<and>
     (mqtt_connected w \<longrightarrow>
        mqtt_publishes (trace (publishSensorData w)) =
          mqtt_publishes (trace w) @
            [(MQTT_TOPIC_SENSOR_DATA, sensor_doc sv sc bv (digitalRead CHARGE_STATUS_PIN w) w)]) \<and>
     \<bar>sv - of_int (analogRead SOLAR_VOLTAGE_PIN w) * (33 / 10) / 4095 * 11\<bar>
        \<le> ulp_single (of_int (analogRead SOLAR_VOLTAGE_PIN w) * (33 / 10) / 4095 * 11) \<and>
     \<bar>sc - of_int (analogRead SOLAR_CURRENT_PIN w) * (33 / 10) / 4095 / (185 / 1000)\<bar>
        \<le> ulp_single (of_int (analogRead SOLAR_CURRENT_PIN w) * (33 / 10) / 4095 / (185 / 1000)) \<and>
     \<bar>bv - of_int (analogRead BATTERY_VOLTAGE_PIN w) * (33 / 10) / 4095 * 11\<bar>
        \<le> ulp_single (of_int (analogRead BATTERY_VOLTAGE_PIN w) * (33 / 10) / 4095 * 11)"
proof -
  assume r: "0 \<le> analogRead SOLAR_VOLTAGE_PIN w \<and> analogRead SOLAR_VOLTAGE_PIN w \<le> 4095"
    "0 \<le> analogRead SOLAR_CURRENT_PIN w \<and> analogRead SOLAR_CURRENT_PIN w \<le> 4095"
    "0 \<le> analogRead BATTERY_VOLTAGE_PIN w \<and> analogRead BATTERY_VOLTAGE_PIN w \<le> 4095"
  let ?sv = "calib_voltage (adc w SOLAR_VOLTAGE_PIN) SOLAR_VOLTAGE_RATIO"
  let ?sc = "calib_current (adc w SOLAR_CURRENT_PIN)"
  let ?bv = "calib_voltage (adc w BATTERY_VOLTAGE_PIN) BATTERY_VOLTAGE_RATIO"
  have sample: "readSensors w =
       sendDataToAPI ?sv ?sc ?bv (digitalRead CHARGE_STATUS_PIN w)
         (w\<lparr>trace := trace w @ sensor_console ?sv ?sc ?bv (digitalRead CHARGE_STATUS_PIN w) w\<rparr>)"
    by (simp add: readSensors_closed digitalRead_def)
  have publish: "mqtt_connected w \<longrightarrow>
        mqtt_publishes (trace (publishSensorData w)) =
          mqtt_publishes (trace w) @
            [(MQTT_TOPIC_SENSOR_DATA, sensor_doc ?sv ?sc ?bv (digitalRead CHARGE_STATUS_PIN w) w)]"
    by (simp add: publishSensorData_online mqtt_publishes_append digitalRead_def)
  have sv: "\<bar>?sv - of_int (analogRead SOLAR_VOLTAGE_PIN w) * (33 / 10) / 4095 * 11\<bar>
        \<le> ulp_single (of_int (analogRead SOLAR_VOLTAGE_PIN w) * (33 / 10) / 4095 * 11)"
    using r(1) calib_voltage_ulp [of "adc w SOLAR_VOLTAGE_PIN"]
    by (simp add: analogRead_def SOLAR_VOLTAGE_RATIO_def)
  have sc: "\<bar>?sc - of_int (analogRead SOLAR_CURRENT_PIN w) * (33 / 10) / 4095 / (185 / 1000)\<bar>
        \<le> ulp_single (of_int (analogRead SOLAR_CURRENT_PIN w) * (33 / 10) / 4095 / (185 / 1000))"
    using r(2) calib_current_ulp [of "adc w SOLAR_CURRENT_PIN"]
    by (simp add: analogRead_def)
  have bv: "\<bar>?bv - of_int (analogRead BATTERY_VOLTAGE_PIN w) * (33 / 10) / 4095 * 11\<bar>
        \<le> ulp_single (of_int (analogRead BATTERY_VOLTAGE_PIN w) * (33 / 10) / 4095 * 11)"
    using r(3) calib_voltage_ulp [of "adc w BATTERY_VOLTAGE_PIN"]
    by (simp add: analogRead_def BATTERY_VOLTAGE_RATIO_def)
  from sample publish sv sc bv show ?thesis by blast
qed

text \<open>C3, witness: the readings 2048, 1024 and 1800; one ulp at 18.15 is \<open>2 ^ -19\<close>.\<close>

theorem calibration_within_one_ulp_witness:
  "(0 \<le> analogRead SOLAR_VOLTAGE_PIN telemetry_world \<and>
      analogRead SOLAR_VOLTAGE_PIN telemetry_world \<le> 4095) \<and>
   (0 \<le> analogRead SOLAR_CURRENT_PIN telemetry_world \<and>
      analogRead SOLAR_CURRENT_PIN telemetry_world \<le> 4095) \<and>
   (0 \<le> analogRead BATTERY_VOLTAGE_PIN telemetry_world \<and>
      analogRead BATTERY_VOLTAGE_PIN telemetry_world \<le> 4095) \<and>
   (\<exists>sv sc bv.
      mqtt_publishes (trace (publishSensorData telemetry_world)) =
        [(MQTT_TOPIC_SENSOR_DATA, sensor_doc sv sc bv 1 telemetry_world)] \<and>
      \<bar>sv - 2048 * (33 / 10) / 4095 * 11\<bar> \<le> 1 / 524288 \<and>
      \<bar>sc - 1024 * (33 / 10) / 4095 / (185 / 1000)\<bar>
        \<le> ulp_single (1024 * (33 / 10) / 4095 / (185 / 1000)) \<and>
      \<bar>bv - 1800 * (33 / 10) / 4095 * 11\<bar> \<le> ulp_single (1800 * (33 / 10) / 4095 * 11))"
proof -
  have h: "0 \<le> analogRead SOLAR_VOLTAGE_PIN telemetry_world \<and>
      analogRead SOLAR_VOLTAGE_PIN telemetry_world \<le> 4095"
    "0 \<le> analogRead SOLAR_CURRENT_PIN telemetry_world \<and>
      analogRead SOLAR_CURRENT_PIN telemetry_world \<le> 4095"
    "0 \<le> analogRead BATTERY_VOLTAGE_PIN telemetry_world \<and>
      analogRead BATTERY_VOLTAGE_PIN telemetry_world \<le> 4095"
    by (simp_all add: telemetry_world_def online_world_def boot_world_def pin_defs prim_defs)
  have v: "analogRead SOLAR_VOLTAGE_PIN telemetry_world = 2048"
    "analogRead SOLAR_CURRENT_PIN telemetry_world = 1024"
    "analogRead BATTERY_VOLTAGE_PIN telemetry_world = 1800"
    "digitalRead CHARGE_STATUS_PIN telemetry_world = 1"
    "mqtt_connected telemetry_world" "trace telemetry_world = []"
    by (simp_all add: telemetry_world_def online_world_def boot_world_def pin_defs prim_defs)
  from calibration_within_one_ulp [OF h] obtain sv sc bv where
    "mqtt_connected telemetry_world \<longrightarrow>
        mqtt_publishes (trace (publishSensorData telemetry_world)) =
          mqtt_publishes (trace telemetry_world) @
            [(MQTT_TOPIC_SENSOR_DATA,
              sensor_doc sv sc bv (digitalRead CHARGE_STATUS_PIN telemetry_world) telemetry_world)]"
    "\<bar>sv - of_int (analogRead SOLAR_VOLTAGE_PIN telemetry_world) * (33 / 10) / 4095 * 11\<bar>
        \<le> ulp_single (of_int (analogRead SOLAR_VOLTAGE_PIN telemetry_world) * (33 / 10) / 4095 * 11)"
    "\<bar>sc - of_int (analogRead SOLAR_CURRENT_PIN telemetry_world) * (33 / 10) / 4095 / (185 / 1000)\<bar>
        \<le> ulp_single (of_int (analogRead SOLAR_CURRENT_PIN telemetry_world) * (33 / 10) / 4095 / (185 / 1000))"
    "\<bar>bv - of_int (analogRead BATTERY_VOLTAGE_PIN telemetry_world) * (33 / 10) / 4095 * 11\<bar>
        \<le> ulp_single (of_int (analogRead BATTERY_VOLTAGE_PIN telemetry_world) * (33 / 10) / 4095 * 11)"
    by blast
  then have "mqtt_publishes (trace (publishSensorData telemetry_world)) =
        [(MQTT_TOPIC_SENSOR_DATA, sensor_doc sv sc bv 1 telemetry_world)] \<and>
      \<bar>sv - 2048 * (33 / 10) / 4095 * 11\<bar> \<le> 1 / 524288 \<and>
      \<bar>sc - 1024 * (33 / 10) / 4095 / (185 / 1000)\<bar>
        \<le> ulp_single (1024 * (33 / 10) / 4095 / (185 / 1000)) \<and>
      \<bar>bv - 1800 * (33 / 10) / 4095 * 11\<bar> \<le> ulp_single (1800 * (33 / 10) / 4095 * 11)"
    unfolding v(1-4,6) using v(5)
    by (simp only: ulp_scenario of_int_numeral append_Nil simp_thms mqtt_publishes.simps)
  with h show ?thesis by blast
qed

end
